theory Spec2Isabelle
  imports
    Complex_Main
    "HOL-Library.Char_ord"
    "HOL-Library.List_Lexorder"
    "HOL-Library.Product_Lexorder"
    "HOL-Library.AList"
begin

section \<open>The training command of spacy/cli/train.py\<close>

text \<open>
  The development embeds \<^verbatim>\<open>src/spacy/cli/train.py\<close>: the command \<^verbatim>\<open>train\<close>
  (set-up, multitask objectives, the epoch loop with its checkpoint, the final save in the
  \<^verbatim>\<open>finally\<close> clause) and the best-model composer (\<^verbatim>\<open>_collate_best_model\<close>,
  \<^verbatim>\<open>_find_best\<close>, \<^verbatim>\<open>_get_metrics\<close>; a leading underscore is not an Isabelle
  identifier, so the three are \<open>collate_best_model\<close>, \<open>find_best\<close>, \<open>get_metrics\<close>).

  Python raises are values: a computation maps the world to an outcome (\<open>Ok\<close> a value or
  \<open>Raised\<close> an error) and the world it leaves behind, so that what survives an exception
  (directories written, the verbosity flag) can be stated. Scores are JSON numbers, taken
  as reals; strings are compared by code unit, as Python compares them.
\<close>

subsection \<open>Errors, outcomes and the world\<close>

datatype py_error =
    SystemExit int
  | ValueError string
  | TypeError string
  | KeyError string
  | FileNotFoundError "string list"
  | FileExistsError "string list"
  | ZeroDivisionError
  | CollaboratorError string

datatype 'a outcome = Ok 'a | Raised py_error

text \<open>A \<^verbatim>\<open>pathlib\<close> path is the list of its parts; \<open>p / name\<close> appends a part.\<close>

type_synonym path = "string list"

definition slash :: "path \<Rightarrow> string \<Rightarrow> path" where
  "slash p name = p @ [name]"

text \<open>The accuracy record: a JSON object from metric names to numbers.\<close>

type_synonym scores = "string \<rightharpoonup> real"

record speed_rec =
  speed_nwords :: nat
  speed_cpu :: real
  speed_gpu :: "real option"

text \<open>
  The \<^verbatim>\<open>meta\<close> dictionary with the keys \<^verbatim>\<open>train\<close> touches; a key that is not set
  is \<open>None\<close>. \<^verbatim>\<open>vectors\<close> is (width, vectors, keys).
\<close>

record meta =
  meta_lang :: "string option"
  meta_pipeline :: "string list option"
  meta_spacy_version :: "string option"
  meta_accuracy :: "scores option"
  meta_speed :: "speed_rec option"
  meta_vectors :: "(nat \<times> nat \<times> nat) option"
  meta_name :: "string option"
  meta_version :: "string option"

definition empty_meta :: meta where
  "empty_meta = \<lparr>meta_lang = None, meta_pipeline = None, meta_spacy_version = None,
     meta_accuracy = None, meta_speed = None, meta_vectors = None, meta_name = None,
     meta_version = None\<rparr>"

text \<open>
  What lies under \<^verbatim>\<open>output_path\<close>: an association list from the child's name to the
  child, in the order \<^verbatim>\<open>iterdir\<close> yields them. A model directory holds one
  sub-directory per serialised component (its weights, \<open>'w\<close>), and maybe
  \<^verbatim>\<open>accuracy.json\<close> and \<^verbatim>\<open>meta.json\<close>.
\<close>

record 'w model_dir =
  comps :: "string \<rightharpoonup> 'w"
  accuracy_json :: "scores option"
  meta_json :: "meta option"

datatype 'w entry = RegularFile | ModelDir "'w model_dir"

type_synonym 'w listing = "(string \<times> 'w entry) list"

text \<open>
  Calls of the collaborators (the pipeline, the corpus, the optimizer, the file system),
  recorded in the order they are made, and the call of the composer.
\<close>

datatype device = Accelerated | Baseline

datatype event =
    EvMkdir path
  | EvReadJson path
  | EvLoadModel string
  | EvGetLangClass string
  | EvDisablePipes "string list"
  | EvAddPipe string
  | EvLoadVectors string
  | EvGetPipe string
  | EvAddObjective string string
  | EvGoldCorpus
  | EvCountTrain
  | EvCreateOptimizer
  | EvBeginTraining
  | EvTrainDocs nat
  | EvUpdate nat nat
  | EvToDisk path
  | EvLoad path device
  | EvDevDocs nat device
  | EvEvaluate nat device
  | EvWriteJson path
  | EvCollate

text \<open>
  The world: the children of \<^verbatim>\<open>output_path\<close>, the \<^verbatim>\<open>meta\<close> dictionary, the
  verbosity flag of \<^verbatim>\<open>util.set_env_log\<close>, whether the scope of
  \<^verbatim>\<open>nlp.use_params(optimizer.averages)\<close> and that of \<^verbatim>\<open>Model.use_device('cpu')\<close>
  are open, the pipeline's component names and registered multitask objectives, its
  weights and the optimizer's averages per component, and the calls made so far.
\<close>

record 'w world =
  out_dir :: "'w listing"
  the_meta :: meta
  env_log :: bool
  averages_active :: bool
  cpu_forced :: bool
  pipe_names :: "string list"
  objectives :: "(string \<times> string) list"
  params :: "string \<Rightarrow> 'w"
  averages :: "string \<Rightarrow> 'w"
  events :: "event list"

type_synonym ('w, 'a) prog = "'w world \<Rightarrow> 'a outcome \<times> 'w world"

definition py_return :: "'a \<Rightarrow> ('w, 'a) prog" where
  "py_return a = (\<lambda>s. (Ok a, s))"

definition py_raise :: "py_error \<Rightarrow> ('w, 'a) prog" where
  "py_raise e = (\<lambda>s. (Raised e, s))"

definition py_bind :: "('w, 'a) prog \<Rightarrow> ('a \<Rightarrow> ('w, 'b) prog) \<Rightarrow> ('w, 'b) prog" where
  "py_bind m f = (\<lambda>s. case m s of (Ok a, s') \<Rightarrow> f a s' | (Raised e, s') \<Rightarrow> (Raised e, s'))"

definition py_seq :: "('w, unit) prog \<Rightarrow> ('w, 'b) prog \<Rightarrow> ('w, 'b) prog" where
  "py_seq m k = py_bind m (\<lambda>_. k)"

text \<open>
  \<^verbatim>\<open>try: body finally: fin\<close>: \<open>fin\<close> runs on every exit of \<open>body\<close>; an exception
  of \<open>fin\<close> replaces the pending one, otherwise the outcome of \<open>body\<close> stands.
\<close>

definition try_finally :: "('w, 'a) prog \<Rightarrow> ('w, unit) prog \<Rightarrow> ('w, 'a) prog" where
  "try_finally body fin = (\<lambda>s. case body s of (r, s') \<Rightarrow>
     (case fin s' of (Raised e, s'') \<Rightarrow> (Raised e, s'') | (Ok _, s'') \<Rightarrow> (r, s'')))"

text \<open>\<^verbatim>\<open>with ctx: body\<close>: enter, then the body, and the exit on every way out of it.\<close>

definition with_scope ::
  "('w, unit) prog \<Rightarrow> ('w, unit) prog \<Rightarrow> ('w, 'a) prog \<Rightarrow> ('w, 'a) prog" where
  "with_scope enter leave body = py_seq enter (try_finally body leave)"

fun for_each :: "'a list \<Rightarrow> ('a \<Rightarrow> ('w, unit) prog) \<Rightarrow> ('w, unit) prog" where
  "for_each [] body = py_return ()"
| "for_each (x # xs) body = py_seq (body x) (for_each xs body)"

definition modify :: "('w world \<Rightarrow> 'w world) \<Rightarrow> ('w, unit) prog" where
  "modify f = (\<lambda>s. (Ok (), f s))"

definition emit :: "event \<Rightarrow> ('w, unit) prog" where
  "emit ev = modify (\<lambda>s. s\<lparr>events := events s @ [ev]\<rparr>)"

subsection \<open>The ranking metrics of a component\<close>

definition get_metrics :: "string \<Rightarrow> string list" where
  "get_metrics component =
     (if component = ''parser'' then [''las'', ''uas'', ''token_acc'']
      else if component = ''tagger'' then [''tags_acc'']
      else if component = ''ner'' then [''ents_f'', ''ents_p'', ''ents_r'']
      else [''token_acc''])"

subsection \<open>The tournament\<close>

text \<open>
  Python's \<^verbatim>\<open>max\<close> of a non-empty list: the first item is the candidate, and a later
  item replaces it when it is strictly greater.
\<close>

fun py_max_from :: "'a::linorder \<Rightarrow> 'a list \<Rightarrow> 'a" where
  "py_max_from m [] = m"
| "py_max_from m (x # xs) = py_max_from (if m < x then x else m) xs"

definition py_max :: "'a::linorder list \<Rightarrow> 'a" where
  "py_max xs = py_max_from (hd xs) (tl xs)"

text \<open>\<^verbatim>\<open>[accs.get(metric, 0.0) for metric in _get_metrics(component)]\<close>\<close>

definition project_scores :: "scores \<Rightarrow> string \<Rightarrow> real list" where
  "project_scores accs component =
     map (\<lambda>metric. case accs metric of None \<Rightarrow> 0 | Some v \<Rightarrow> v) (get_metrics component)"

text \<open>
  The loop of \<^verbatim>\<open>_find_best\<close> over \<^verbatim>\<open>experiment_dir.iterdir()\<close>. Opening
  \<^verbatim>\<open>accuracy.json\<close> in a directory that has none raises; the scan stops there.
\<close>

fun find_best_scan ::
  "path \<Rightarrow> string \<Rightarrow> 'w listing \<Rightarrow> (real list \<times> path) list \<Rightarrow>
   py_error + (real list \<times> path) list" where
  "find_best_scan experiment_dir component [] accuracies = Inr accuracies"
| "find_best_scan experiment_dir component ((name, RegularFile) # rest) accuracies =
     find_best_scan experiment_dir component rest accuracies"
| "find_best_scan experiment_dir component ((name, ModelDir d) # rest) accuracies =
     (if name \<noteq> ''model-final'' then
        (case accuracy_json d of
           None \<Rightarrow> Inl (FileNotFoundError (slash (slash experiment_dir name) ''accuracy.json''))
         | Some accs \<Rightarrow>
             find_best_scan experiment_dir component rest
               (accuracies @ [(project_scores accs component, slash experiment_dir name)]))
      else find_best_scan experiment_dir component rest accuracies)"

definition find_best :: "path \<Rightarrow> 'w listing \<Rightarrow> string \<Rightarrow> py_error + path option" where
  "find_best experiment_dir dir component =
     (case find_best_scan experiment_dir component dir [] of
        Inl e \<Rightarrow> Inl e
      | Inr accuracies \<Rightarrow>
          Inr (if accuracies \<noteq> [] then Some (snd (py_max accuracies)) else None))"

subsection \<open>The composer\<close>

text \<open>
  The directory at a path: every path the command uses is a child of
  \<^verbatim>\<open>output_path\<close>, and the world holds the children of \<^verbatim>\<open>output_path\<close>.
\<close>

definition dir_at :: "path \<Rightarrow> 'w listing \<Rightarrow> path \<Rightarrow> 'w model_dir option" where
  "dir_at output_path dir p =
     (if p \<noteq> [] \<and> butlast p = output_path then
        (case map_of dir (last p) of Some (ModelDir d) \<Rightarrow> Some d | _ \<Rightarrow> None)
      else None)"

definition put_dir :: "path \<Rightarrow> 'w model_dir \<Rightarrow> 'w listing \<Rightarrow> 'w listing" where
  "put_dir p d dir = AList.update (last p) (ModelDir d) dir"

text \<open>
  \<^verbatim>\<open>shutil.copytree(src, dst)\<close> of a model directory: the source must be there and
  the destination must not.
\<close>

definition copytree :: "path \<Rightarrow> path \<Rightarrow> path \<Rightarrow> ('w, unit) prog" where
  "copytree output_path src dst = (\<lambda>s.
     case dir_at output_path (out_dir s) src of
       None \<Rightarrow> (Raised (FileNotFoundError src), s)
     | Some d \<Rightarrow>
         (case map_of (out_dir s) (last dst) of
            Some _ \<Rightarrow> (Raised (FileExistsError dst), s)
          | None \<Rightarrow> (Ok (), s\<lparr>out_dir := put_dir dst d (out_dir s)\<rparr>)))"

text \<open>\<^verbatim>\<open>shutil.rmtree(best_dest / component)\<close>\<close>

definition rmtree_component :: "path \<Rightarrow> path \<Rightarrow> string \<Rightarrow> ('w, unit) prog" where
  "rmtree_component output_path best_dest component = (\<lambda>s.
     case dir_at output_path (out_dir s) best_dest of
       None \<Rightarrow> (Raised (FileNotFoundError (slash best_dest component)), s)
     | Some d \<Rightarrow>
         (case comps d component of
            None \<Rightarrow> (Raised (FileNotFoundError (slash best_dest component)), s)
          | Some _ \<Rightarrow>
              (Ok (), s\<lparr>out_dir :=
                 put_dir best_dest (d\<lparr>comps := (comps d)(component := None)\<rparr>) (out_dir s)\<rparr>)))"

text \<open>\<^verbatim>\<open>shutil.copytree(best_component_src / component, best_dest / component)\<close>\<close>

definition copytree_component :: "path \<Rightarrow> path \<Rightarrow> path \<Rightarrow> string \<Rightarrow> ('w, unit) prog" where
  "copytree_component output_path src best_dest component = (\<lambda>s.
     case dir_at output_path (out_dir s) src of
       None \<Rightarrow> (Raised (FileNotFoundError (slash src component)), s)
     | Some d_src \<Rightarrow>
         (case comps d_src component of
            None \<Rightarrow> (Raised (FileNotFoundError (slash src component)), s)
          | Some w \<Rightarrow>
              (case dir_at output_path (out_dir s) best_dest of
                 None \<Rightarrow> (Raised (FileNotFoundError best_dest), s)
               | Some d \<Rightarrow>
                   (case comps d component of
                      Some _ \<Rightarrow> (Raised (FileExistsError (slash best_dest component)), s)
                    | None \<Rightarrow>
                        (Ok (), s\<lparr>out_dir :=
                           put_dir best_dest (d\<lparr>comps := (comps d)(component \<mapsto> w)\<rparr>)
                             (out_dir s)\<rparr>)))))"

text \<open>\<^verbatim>\<open>json.load\<close> of \<^verbatim>\<open>best_component_src / 'accuracy.json'\<close>\<close>

definition read_accuracy :: "path \<Rightarrow> path \<Rightarrow> ('w, scores) prog" where
  "read_accuracy output_path src = (\<lambda>s.
     case dir_at output_path (out_dir s) src of
       None \<Rightarrow> (Raised (FileNotFoundError (slash src ''accuracy.json'')), s)
     | Some d \<Rightarrow>
         (case accuracy_json d of
            None \<Rightarrow> (Raised (FileNotFoundError (slash src ''accuracy.json'')), s)
          | Some accs \<Rightarrow> (Ok accs, s)))"

text \<open>
  \<^verbatim>\<open>meta['accuracy'][metric] = accs[metric]\<close>: the right-hand side is evaluated first,
  and both subscripts raise \<^verbatim>\<open>KeyError\<close> on a key that is not there.
\<close>

definition set_meta_accuracy :: "scores \<Rightarrow> string \<Rightarrow> ('w, unit) prog" where
  "set_meta_accuracy accs metric = (\<lambda>s.
     case accs metric of
       None \<Rightarrow> (Raised (KeyError metric), s)
     | Some v \<Rightarrow>
         (case meta_accuracy (the_meta s) of
            None \<Rightarrow> (Raised (KeyError ''accuracy''), s)
          | Some acc \<Rightarrow>
              (Ok (), s\<lparr>the_meta := (the_meta s)\<lparr>meta_accuracy := Some (acc(metric \<mapsto> v))\<rparr>\<rparr>)))"

text \<open>\<^verbatim>\<open>write_json(dir / 'meta.json', meta)\<close>\<close>

definition write_meta_json :: "path \<Rightarrow> path \<Rightarrow> ('w, unit) prog" where
  "write_meta_json output_path p = (\<lambda>s.
     case dir_at output_path (out_dir s) p of
       None \<Rightarrow> (Raised (FileNotFoundError (slash p ''meta.json'')), s)
     | Some d \<Rightarrow>
         (Ok (), s\<lparr>out_dir := put_dir p (d\<lparr>meta_json := Some (the_meta s)\<rparr>) (out_dir s)\<rparr>))"

text \<open>
  The first loop of \<^verbatim>\<open>_collate_best_model\<close>: \<^verbatim>\<open>bests[component] = _find_best(...)\<close>.
  The dictionary keeps its keys in the order they were first set.
\<close>

fun collect_bests ::
  "path \<Rightarrow> 'w listing \<Rightarrow> string list \<Rightarrow> (string \<times> path option) list \<Rightarrow>
   py_error + (string \<times> path option) list" where
  "collect_bests output_path dir [] bests = Inr bests"
| "collect_bests output_path dir (component # rest) bests =
     (case find_best output_path dir component of
        Inl e \<Rightarrow> Inl e
      | Inr best \<Rightarrow> collect_bests output_path dir rest (AList.update component best bests))"

text \<open>The body of the second loop, for one item of \<^verbatim>\<open>bests.items()\<close>.\<close>

definition install_best :: "path \<Rightarrow> path \<Rightarrow> string \<times> path option \<Rightarrow> ('w, unit) prog" where
  "install_best output_path best_dest item =
     (case item of (component, best_component_src) \<Rightarrow>
        py_seq (rmtree_component output_path best_dest component)
          (case best_component_src of
             None \<Rightarrow> py_raise (TypeError ''unsupported operand type(s) for /'')
           | Some src \<Rightarrow>
               py_seq (copytree_component output_path src best_dest component)
                 (py_bind (read_accuracy output_path src)
                    (\<lambda>accs. for_each (get_metrics component) (set_meta_accuracy accs)))))"

definition collate_best_model :: "path \<Rightarrow> string list \<Rightarrow> ('w, unit) prog" where
  "collate_best_model output_path components =
     py_bind
       (\<lambda>s. case collect_bests output_path (out_dir s) components [] of
               Inl e \<Rightarrow> (Raised e, s)
             | Inr bests \<Rightarrow> (Ok bests, s))
       (\<lambda>bests.
          let best_dest = slash output_path ''model-best'' in
          py_seq (copytree output_path (slash output_path ''model-final'') best_dest)
            (py_seq (for_each bests (install_best output_path best_dest))
               (write_meta_json output_path best_dest)))"


subsection \<open>The minibatch partitioner\<close>

text \<open>
  Modelled from the spec: \<^verbatim>\<open>minibatch_by_words\<close> is imported from \<^verbatim>\<open>spacy/util.py\<close>,
  which is not among the sources; the definition follows the spec's section 4.2. The
  partitioner keeps an accumulator; each incoming pair is appended to the current batch
  and its token length added, and when the cumulative length meets or exceeds the target
  size drawn for the batch, the batch is closed and a fresh target is drawn for the next
  one. A single pair longer than the target closes its own batch. At the end of the stream
  the open batch is yielded unless it is empty.

  \<open>count_words\<close> is the token length of a pair, \<open>sizes k\<close> the \<open>k\<close>-th value
  that the batch-size schedule yields from where it stands, \<open>k\<close> the number of targets
  consumed so far, \<open>batch\<close> and \<open>n_words\<close> the accumulator and its token count.
\<close>

fun minibatch_by_words_from ::
  "('d \<Rightarrow> nat) \<Rightarrow> (nat \<Rightarrow> real) \<Rightarrow> nat \<Rightarrow> 'd list \<Rightarrow> nat \<Rightarrow> 'd list \<Rightarrow> 'd list list" where
  "minibatch_by_words_from count_words sizes k batch n_words [] =
     (if batch = [] then [] else [batch])"
| "minibatch_by_words_from count_words sizes k batch n_words (item # items) =
     (if sizes k \<le> real (n_words + count_words item)
      then (batch @ [item]) # minibatch_by_words_from count_words sizes (Suc k) [] 0 items
      else minibatch_by_words_from count_words sizes k (batch @ [item])
             (n_words + count_words item) items)"

definition minibatch_by_words :: "('d \<Rightarrow> nat) \<Rightarrow> 'd list \<Rightarrow> (nat \<Rightarrow> real) \<Rightarrow> 'd list list" where
  "minibatch_by_words count_words items sizes =
     minibatch_by_words_from count_words sizes 0 [] 0 items"


subsection \<open>The command \<^verbatim>\<open>train\<close>\<close>

text \<open>The arguments of \<^verbatim>\<open>train\<close>.\<close>

record args =
  arg_lang :: string
  arg_output_path :: path
  arg_train_path :: path
  arg_dev_path :: path
  arg_base_model :: "string option"
  arg_pipeline :: string
  arg_vectors :: "string option"
  arg_n_iter :: int
  arg_n_examples :: int
  arg_use_gpu :: int
  arg_version :: string
  arg_meta_path :: "path option"
  arg_parser_multitasks :: string
  arg_entity_multitasks :: string
  arg_noise_level :: real
  arg_gold_preproc :: bool
  arg_learn_tokens :: bool
  arg_verbose :: bool
  arg_debug :: bool

text \<open>What \<^verbatim>\<open>util.read_json(meta_path)\<close> returns: a dictionary or some other JSON value.\<close>

datatype json_top = JsonDict meta | JsonOther

text \<open>
  The collaborators, which are not part of \<^verbatim>\<open>train.py\<close>, are parameters: which paths
  exist, what the meta file holds, the component names of the base model, whether a call
  raises (\<open>raises\<close>, by the call), the training pairs of an epoch with their token
  lengths, the values the batch-size schedule yields from where it stands when an epoch
  starts, the effect of an update on the weights and the averages, which components
  \<^verbatim>\<open>to_disk\<close> writes a directory for and the \<^verbatim>\<open>meta.json\<close> it writes, the number
  of words of the development set, the scorer's scores and the seconds an evaluation
  takes (per epoch and backend), and the values that \<^verbatim>\<open>train\<close> copies into
  \<^verbatim>\<open>meta\<close>.
\<close>

record ('w, 'd) env =
  train_path_exists :: bool
  dev_path_exists :: bool
  meta_path_exists :: bool
  output_path_exists :: bool
  meta_file :: json_top
  base_pipe_names :: "string list"
  raises :: "event \<Rightarrow> py_error option"
  train_docs :: "nat \<Rightarrow> 'd list"
  words_of :: "'d \<Rightarrow> nat"
  batch_sizes :: "nat \<Rightarrow> nat \<Rightarrow> real"
  update_effect ::
    "nat \<Rightarrow> nat \<Rightarrow> 'd list \<Rightarrow> (string \<Rightarrow> 'w) \<times> (string \<Rightarrow> 'w) \<Rightarrow> (string \<Rightarrow> 'w) \<times> (string \<Rightarrow> 'w)"
  serialised :: "string \<Rightarrow> bool"
  nlp_meta :: meta
  dev_words :: "nat \<Rightarrow> nat"
  eval_scores :: "nat \<Rightarrow> device \<Rightarrow> scores"
  elapsed :: "nat \<Rightarrow> device \<Rightarrow> real"
  nlp_lang :: string
  about_version :: string
  vocab_vectors :: "nat \<times> nat \<times> nat"

text \<open>A call of a collaborator: it is recorded, and raises when the environment says so.\<close>

definition call :: "('w, 'd) env \<Rightarrow> event \<Rightarrow> ('w, unit) prog" where
  "call env ev = (\<lambda>s.
     case raises env ev of
       Some e \<Rightarrow> (Raised e, s\<lparr>events := events s @ [ev]\<rparr>)
     | None \<Rightarrow> (Ok (), s\<lparr>events := events s @ [ev]\<rparr>))"

subsubsection \<open>Strings\<close>

text \<open>\<^verbatim>\<open>s.split(',')\<close>: the pieces between the separators, at least one piece.\<close>

fun split_on :: "char \<Rightarrow> string \<Rightarrow> string list" where
  "split_on sep [] = [[]]"
| "split_on sep (c # cs) =
     (if c = sep then [] # split_on sep cs
      else (case split_on sep cs of
              [] \<Rightarrow> [[c]]
            | w # ws \<Rightarrow> (c # w) # ws))"

text \<open>\<^verbatim>\<open>str.isspace\<close> on the ASCII characters, and \<^verbatim>\<open>s.strip()\<close>.\<close>

definition is_space :: "char \<Rightarrow> bool" where
  "is_space c = ((of_char c :: nat) \<in> {9, 10, 11, 12, 13, 28, 29, 30, 31, 32})"

definition strip :: "string \<Rightarrow> string" where
  "strip s = rev (dropWhile is_space (rev (dropWhile is_space s)))"

text \<open>\<^verbatim>\<open>'%d' % i\<close> for an index of \<^verbatim>\<open>range(n_iter)\<close>.\<close>

fun string_of_nat :: "nat \<Rightarrow> string" where
  "string_of_nat n =
     (if n < 10 then [''0123456789'' ! n]
      else string_of_nat (n div 10) @ [''0123456789'' ! (n mod 10)])"

declare string_of_nat.simps [simp del]

definition epoch_model_name :: "nat \<Rightarrow> string" where
  "epoch_model_name i = ''model'' @ string_of_nat i"

subsubsection \<open>Set-up (lines 60 to 101)\<close>

definition set_env_log :: "bool \<Rightarrow> ('w, unit) prog" where
  "set_env_log b = modify (\<lambda>s. s\<lparr>env_log := b\<rparr>)"

text \<open>\<^verbatim>\<open>prints(..., exits=1)\<close> leaves the process with status 1.\<close>

definition check_paths :: "args \<Rightarrow> ('w, 'd) env \<Rightarrow> ('w, unit) prog" where
  "check_paths a env =
     py_seq (if \<not> train_path_exists env then py_raise (SystemExit 1) else py_return ())
    (py_seq (if \<not> dev_path_exists env then py_raise (SystemExit 1) else py_return ())
    (py_seq (if arg_meta_path a \<noteq> None \<and> \<not> meta_path_exists env
             then py_raise (SystemExit 1) else py_return ())
    (py_seq (case arg_meta_path a of
               None \<Rightarrow> modify (\<lambda>s. s\<lparr>the_meta := empty_meta\<rparr>)
             | Some meta_path \<Rightarrow>
                 py_seq (call env (EvReadJson meta_path))
                   (case meta_file env of
                      JsonDict m \<Rightarrow> modify (\<lambda>s. s\<lparr>the_meta := m\<rparr>)
                    | JsonOther \<Rightarrow> py_raise (SystemExit 1)))
            (if \<not> output_path_exists env then call env (EvMkdir (arg_output_path a))
             else py_return ()))))"

text \<open>
  \<^verbatim>\<open>if base_model:\<close> holds for a string that is not empty. With a base model, the
  components outside the pipeline are disabled and the missing ones are added; otherwise
  every component of the pipeline is added to a blank model.
\<close>

definition truthy :: "string option \<Rightarrow> bool" where
  "truthy x = (case x of None \<Rightarrow> False | Some s \<Rightarrow> s \<noteq> [])"

definition add_pipe :: "('w, 'd) env \<Rightarrow> string \<Rightarrow> ('w, unit) prog" where
  "add_pipe env pipe =
     py_seq (call env (EvAddPipe pipe))
       (modify (\<lambda>s. s\<lparr>pipe_names := pipe_names s @ [pipe]\<rparr>))"

definition setup_pipeline :: "args \<Rightarrow> ('w, 'd) env \<Rightarrow> string list \<Rightarrow> ('w, unit) prog" where
  "setup_pipeline a env pipeline =
     py_seq
       (if truthy (arg_base_model a) then
          py_seq (call env (EvLoadModel (the (arg_base_model a))))
         (py_seq (modify (\<lambda>s. s\<lparr>pipe_names := base_pipe_names env\<rparr>))
         (py_seq (call env (EvDisablePipes [pipe \<leftarrow> base_pipe_names env. pipe \<notin> set pipeline]))
         (py_seq (modify (\<lambda>s. s\<lparr>pipe_names := [pipe \<leftarrow> pipe_names s. pipe \<in> set pipeline]\<rparr>))
                 (for_each pipeline (\<lambda>pipe s.
                    if pipe \<notin> set (pipe_names s) then add_pipe env pipe s else (Ok (), s))))))
        else
          py_seq (call env (EvGetLangClass (arg_lang a)))
         (py_seq (modify (\<lambda>s. s\<lparr>pipe_names := []\<rparr>))
                 (for_each pipeline (add_pipe env))))
    (py_seq (if arg_learn_tokens a then add_pipe env ''merge_subtokens'' else py_return ())
            (if truthy (arg_vectors a) then call env (EvLoadVectors (the (arg_vectors a)))
             else py_return ()))"

subsubsection \<open>Multitask objectives (lines 104 to 111)\<close>

definition add_multitasks :: "('w, 'd) env \<Rightarrow> string list \<Rightarrow> string \<times> string \<Rightarrow> ('w, unit) prog" where
  "add_multitasks env pipeline item =
     (case item of (pipe_name, multitasks) \<Rightarrow>
        if multitasks \<noteq> [] then
          py_seq (if pipe_name \<notin> set pipeline
                  then py_raise (ValueError (''Needs '' @ [CHR 0x27] @ pipe_name @ [CHR 0x27] @ '' in pipeline''))
                  else py_return ())
         (py_seq (call env (EvGetPipe pipe_name))
                 (for_each (split_on (CHR '','') multitasks) (\<lambda>objective.
                    py_seq (call env (EvAddObjective pipe_name objective))
                      (modify (\<lambda>s. s\<lparr>objectives := objectives s @ [(pipe_name, objective)]\<rparr>)))))
        else py_return ())"

definition multitask_objectives :: "args \<Rightarrow> ('w, 'd) env \<Rightarrow> string list \<Rightarrow> ('w, unit) prog" where
  "multitask_objectives a env pipeline =
     for_each [(''parser'', arg_parser_multitasks a), (''ner'', arg_entity_multitasks a)]
       (add_multitasks env pipeline)"

subsubsection \<open>Corpus and optimizer (lines 114 to 124)\<close>

definition prepare_training :: "args \<Rightarrow> ('w, 'd) env \<Rightarrow> ('w, unit) prog" where
  "prepare_training a env =
     py_seq (call env EvGoldCorpus)
    (py_seq (call env EvCountTrain)
            (if truthy (arg_base_model a) then call env EvCreateOptimizer
             else call env EvBeginTraining))"

subsubsection \<open>One epoch of updates (lines 129 to 141)\<close>

text \<open>
  The batches come from \<open>minibatch_by_words\<close>; an empty batch is skipped, every other one
  is passed to \<^verbatim>\<open>nlp.update\<close>, which changes the weights and the averages.
\<close>

definition update_batch :: "('w, 'd) env \<Rightarrow> nat \<Rightarrow> nat \<times> 'd list \<Rightarrow> ('w, unit) prog" where
  "update_batch env i item =
     (case item of (j, batch) \<Rightarrow>
        if batch = [] then py_return ()
        else py_seq (call env (EvUpdate i j))
               (modify (\<lambda>s.
                  case update_effect env i j batch (params s, averages s) of
                    (p, avg) \<Rightarrow> s\<lparr>params := p, averages := avg\<rparr>)))"

definition train_epoch :: "args \<Rightarrow> ('w, 'd) env \<Rightarrow> nat \<Rightarrow> ('w, unit) prog" where
  "train_epoch a env i =
     py_seq (call env (EvTrainDocs i))
       (let batches = minibatch_by_words (words_of env) (train_docs env i) (batch_sizes env i)
        in for_each (zip [0..<length batches] batches) (update_batch env i))"

subsubsection \<open>The checkpoint of an epoch (lines 142 to 185)\<close>

text \<open>
  Modelled from the spec: \<^verbatim>\<open>nlp.use_params\<close> and \<^verbatim>\<open>nlp.to_disk\<close> belong to the
  pipeline class, which is not among the sources. The scope of \<^verbatim>\<open>use_params\<close> is a
  scoped activation of the optimizer's running parameter average, reverted afterwards;
  \<^verbatim>\<open>to_disk\<close> persists the pipeline state in the active view: one sub-directory per
  serialised component, and the pipeline's own \<^verbatim>\<open>meta.json\<close>. Other files of an
  existing directory stay.
\<close>

definition use_params_averages :: "('w, 'a) prog \<Rightarrow> ('w, 'a) prog" where
  "use_params_averages body =
     with_scope (modify (\<lambda>s. s\<lparr>averages_active := True\<rparr>))
       (modify (\<lambda>s. s\<lparr>averages_active := False\<rparr>)) body"

definition use_device_cpu :: "('w, 'a) prog \<Rightarrow> ('w, 'a) prog" where
  "use_device_cpu body =
     with_scope (modify (\<lambda>s. s\<lparr>cpu_forced := True\<rparr>))
       (modify (\<lambda>s. s\<lparr>cpu_forced := False\<rparr>)) body"

definition active_view :: "'w world \<Rightarrow> string \<Rightarrow> 'w" where
  "active_view s = (if averages_active s then averages s else params s)"

definition written_comps :: "('w, 'd) env \<Rightarrow> 'w world \<Rightarrow> (string \<rightharpoonup> 'w) \<Rightarrow> (string \<rightharpoonup> 'w)" where
  "written_comps env s old = (\<lambda>c.
     if c \<in> set (pipe_names s) \<and> serialised env c then Some (active_view s c) else old c)"

definition to_disk :: "('w, 'd) env \<Rightarrow> path \<Rightarrow> ('w, unit) prog" where
  "to_disk env p =
     py_seq (call env (EvToDisk p))
       (modify (\<lambda>s. s\<lparr>out_dir :=
          put_dir p
            (case map_of (out_dir s) (last p) of
               Some (ModelDir d) \<Rightarrow>
                 d\<lparr>comps := written_comps env s (comps d), meta_json := Some (nlp_meta env)\<rparr>
             | _ \<Rightarrow>
                 \<lparr>comps = written_comps env s Map.empty, accuracy_json = None,
                  meta_json = Some (nlp_meta env)\<rparr>)
            (out_dir s)\<rparr>))"

text \<open>\<^verbatim>\<open>write_json(dir / 'accuracy.json', scores)\<close>\<close>

definition write_accuracy_json :: "('w, 'd) env \<Rightarrow> path \<Rightarrow> path \<Rightarrow> scores \<Rightarrow> ('w, unit) prog" where
  "write_accuracy_json env output_path p sc =
     py_seq (call env (EvWriteJson (slash p ''accuracy.json'')))
       (\<lambda>s. case dir_at output_path (out_dir s) p of
               None \<Rightarrow> (Raised (FileNotFoundError (slash p ''accuracy.json'')), s)
             | Some d \<Rightarrow>
                 (Ok (), s\<lparr>out_dir := put_dir p (d\<lparr>accuracy_json := Some sc\<rparr>) (out_dir s)\<rparr>))"

text \<open>True division of the word count by the seconds: a zero divisor raises.\<close>

definition words_per_second :: "nat \<Rightarrow> real \<Rightarrow> ('w, real) prog" where
  "words_per_second nwords seconds =
     (if seconds = 0 then py_raise ZeroDivisionError else py_return (real nwords / seconds))"

text \<open>The backend that an evaluation runs on when no device is forced.\<close>

definition active_device :: "args \<Rightarrow> device" where
  "active_device a = (if arg_use_gpu a < 0 then Baseline else Accelerated)"

text \<open>
  Lines 146 to 166: reload, development set, evaluation and throughput. The result is
  \<^verbatim>\<open>(scorer.scores, nwords, cpu_wps, gpu_wps)\<close>.
\<close>

definition evaluate_speed ::
  "args \<Rightarrow> ('w, 'd) env \<Rightarrow> nat \<Rightarrow> path \<Rightarrow> ('w, scores \<times> nat \<times> real \<times> real option) prog" where
  "evaluate_speed a env i epoch_model_path =
     py_seq (call env (EvLoad epoch_model_path (active_device a)))
    (py_seq (call env (EvDevDocs i (active_device a)))
    (let nwords = dev_words env i in
     py_seq (call env (EvEvaluate i (active_device a)))
       (if arg_use_gpu a < 0 then
          py_bind (words_per_second nwords (elapsed env i (active_device a)))
            (\<lambda>cpu_wps. py_return (eval_scores env i (active_device a), nwords, cpu_wps, None))
        else
          py_bind (words_per_second nwords (elapsed env i (active_device a)))
            (\<lambda>gpu_wps.
               use_device_cpu
                 (py_seq (call env (EvLoad epoch_model_path Baseline))
                 (py_seq (call env (EvDevDocs i Baseline))
                 (py_seq (call env (EvEvaluate i Baseline))
                 (py_bind (words_per_second nwords (elapsed env i Baseline))
                    (\<lambda>cpu_wps.
                       py_return (eval_scores env i Baseline, nwords, cpu_wps, Some gpu_wps))))))))))"

text \<open>
  Lines 171 to 181: \<^verbatim>\<open>setdefault\<close> sets a key only when the dictionary does not have it.
\<close>

definition update_meta ::
  "args \<Rightarrow> ('w, 'd) env \<Rightarrow> nat \<Rightarrow> scores \<times> nat \<times> real \<times> real option \<Rightarrow> ('w, unit) prog" where
  "update_meta a env i r =
     (case r of (sc, nwords, cpu_wps, gpu_wps) \<Rightarrow>
        modify (\<lambda>s. s\<lparr>the_meta := (the_meta s)
          \<lparr>meta_lang := Some (nlp_lang env),
           meta_pipeline := Some (pipe_names s),
           meta_spacy_version := Some (''>='' @ about_version env),
           meta_accuracy := Some sc,
           meta_speed := Some \<lparr>speed_nwords = nwords, speed_cpu = cpu_wps, speed_gpu = gpu_wps\<rparr>,
           meta_vectors := Some (vocab_vectors env),
           meta_name := (case meta_name (the_meta s) of
                           None \<Rightarrow> Some (epoch_model_name i) | Some n \<Rightarrow> Some n),
           meta_version := (case meta_version (the_meta s) of
                              None \<Rightarrow> Some (arg_version a) | Some v \<Rightarrow> Some v)\<rparr>\<rparr>))"

definition checkpoint :: "args \<Rightarrow> ('w, 'd) env \<Rightarrow> nat \<Rightarrow> ('w, unit) prog" where
  "checkpoint a env i =
     use_params_averages
       (py_seq (set_env_log False)
       (let epoch_model_path = slash (arg_output_path a) (epoch_model_name i) in
        py_seq (to_disk env epoch_model_path)
       (py_bind (evaluate_speed a env i epoch_model_path)
          (\<lambda>r. py_seq (write_accuracy_json env (arg_output_path a) epoch_model_path (fst r))
               (py_seq (update_meta a env i r)
               (py_seq (py_seq (call env (EvWriteJson (slash epoch_model_path ''meta.json'')))
                          (write_meta_json (arg_output_path a) epoch_model_path))
                       (set_env_log (arg_verbose a))))))))"

text \<open>The body of the epoch loop; \<^verbatim>\<open>print_progress\<close> only prints.\<close>

definition epoch :: "args \<Rightarrow> ('w, 'd) env \<Rightarrow> nat \<Rightarrow> ('w, unit) prog" where
  "epoch a env i = py_seq (train_epoch a env i) (checkpoint a env i)"

subsubsection \<open>The final save and the whole command (lines 127 to 196)\<close>

definition final_save :: "args \<Rightarrow> ('w, 'd) env \<Rightarrow> ('w, unit) prog" where
  "final_save a env =
     use_params_averages (to_disk env (slash (arg_output_path a) ''model-final''))"

definition epoch_loop :: "args \<Rightarrow> ('w, 'd) env \<Rightarrow> ('w, unit) prog" where
  "epoch_loop a env = for_each [0..<nat (arg_n_iter a)] (epoch a env)"

definition the_pipeline :: "args \<Rightarrow> string list" where
  "the_pipeline a = map strip (split_on (CHR '','') (arg_pipeline a))"

definition train_setup :: "args \<Rightarrow> ('w, 'd) env \<Rightarrow> ('w, unit) prog" where
  "train_setup a env =
     py_seq (set_env_log (arg_verbose a))
    (py_seq (check_paths a env)
    (py_seq (setup_pipeline a env (the_pipeline a))
    (py_seq (multitask_objectives a env (the_pipeline a))
            (prepare_training a env))))"

definition run_composer :: "args \<Rightarrow> ('w, unit) prog" where
  "run_composer a =
     py_seq (emit EvCollate)
       (\<lambda>s. collate_best_model (arg_output_path a) (pipe_names s) s)"

definition train :: "args \<Rightarrow> ('w, 'd) env \<Rightarrow> ('w, unit) prog" where
  "train a env =
     py_seq (train_setup a env)
    (py_seq (try_finally (epoch_loop a env) (final_save a env))
            (run_composer a))"


section \<open>Notions used in the statements\<close>

text \<open>
  The children of the experiment directory that \<^verbatim>\<open>_find_best\<close> takes for epochs: the
  directories whose name is not \<^verbatim>\<open>model-final\<close>, in listing order.
\<close>

fun epoch_candidates :: "'w listing \<Rightarrow> (string \<times> 'w model_dir) list" where
  "epoch_candidates [] = []"
| "epoch_candidates ((name, RegularFile) # rest) = epoch_candidates rest"
| "epoch_candidates ((name, ModelDir d) # rest) =
     (if name \<noteq> ''model-final'' then (name, d) # epoch_candidates rest
      else epoch_candidates rest)"

text \<open>The pair \<^verbatim>\<open>(scores, epoch_model)\<close> that the scan appends for a candidate.\<close>

definition candidate_row ::
  "path \<Rightarrow> string \<Rightarrow> string \<times> 'w model_dir \<Rightarrow> real list \<times> path" where
  "candidate_row experiment_dir component c =
     (project_scores (the (accuracy_json (snd c))) component, slash experiment_dir (fst c))"

text \<open>The ranking tuple of a candidate for a component.\<close>

definition ranking_tuple :: "string \<Rightarrow> string \<times> 'w model_dir \<Rightarrow> real list" where
  "ranking_tuple component c = project_scores (the (accuracy_json (snd c))) component"

text \<open>Example directories: an epoch directory with its accuracy record, and a snapshot
  without one (\<^verbatim>\<open>model-final\<close>, \<^verbatim>\<open>model-best\<close>). The weights are numbered.\<close>

definition epoch_dir :: "nat \<Rightarrow> (string \<times> real) list \<Rightarrow> nat entry" where
  "epoch_dir w accs =
     ModelDir \<lparr>comps = [''tagger'' \<mapsto> w, ''parser'' \<mapsto> w, ''ner'' \<mapsto> w],
       accuracy_json = Some (map_of accs), meta_json = Some empty_meta\<rparr>"

definition snapshot_dir :: "nat \<Rightarrow> nat entry" where
  "snapshot_dir w =
     ModelDir \<lparr>comps = [''tagger'' \<mapsto> w, ''parser'' \<mapsto> w, ''ner'' \<mapsto> w],
       accuracy_json = None, meta_json = Some empty_meta\<rparr>"

definition ex_uas_decides :: "nat listing" where
  "ex_uas_decides =
     [(''model0'', epoch_dir 0 [(''las'', 0.9), (''uas'', 0.8)]),
      (''notes.txt'', RegularFile),
      (''model1'', epoch_dir 1 [(''las'', 0.9), (''uas'', 0.85), (''token_acc'', 0.5)]),
      (''model2'', epoch_dir 2 [(''las'', 0.7), (''uas'', 0.99), (''token_acc'', 0.99)]),
      (''model-final'', snapshot_dir 2)]"

definition ex_tie :: "nat listing" where
  "ex_tie =
     [(''model8'', epoch_dir 8 [(''tags_acc'', 0.9)]),
      (''model9'', epoch_dir 9 [(''tags_acc'', 0.95)]),
      (''model10'', epoch_dir 10 [(''tags_acc'', 0.95)]),
      (''model-final'', snapshot_dir 10)]"

definition ex_stale_best :: "nat listing" where
  "ex_stale_best =
     [(''model0'', epoch_dir 0 [(''tags_acc'', 0.9)]),
      (''model-final'', snapshot_dir 0),
      (''model-best'', snapshot_dir 0)]"

definition ex_no_epochs :: "nat listing" where
  "ex_no_epochs = [(''model-final'', snapshot_dir 0)]"

text \<open>A world around an example directory, with the \<^verbatim>\<open>meta\<close> dictionary given.\<close>

definition world_of :: "nat listing \<Rightarrow> meta \<Rightarrow> nat world" where
  "world_of dir m =
     \<lparr>out_dir = dir, the_meta = m, env_log = False, averages_active = False,
      cpu_forced = False, pipe_names = [], objectives = [], params = (\<lambda>_. 0), averages = (\<lambda>_. 0), events = []\<rparr>"

text \<open>The token count of a batch.\<close>

definition batch_words :: "('d \<Rightarrow> nat) \<Rightarrow> 'd list \<Rightarrow> nat" where
  "batch_words count_words batch = sum_list (map count_words batch)"

text \<open>
  Example arguments and collaborators: the pipeline \<^verbatim>\<open>tagger,parser\<close>, five epochs, the
  baseline backend; two training documents of 2 and 3 words and a target of 1000 words, so
  that an epoch is one batch; an update adds one to every weight and sets the average to
  the weight it found plus 100; a development set of 100 words, evaluated in 2 seconds on
  the baseline backend and in half a second on the accelerated one; the parser's las is
  0.80, 0.91, 0.85 in the epochs 0, 1, 2. Which calls raise is left open.
\<close>

definition ex_args :: args where
  "ex_args =
     \<lparr>arg_lang = ''en'', arg_output_path = [''out''], arg_train_path = [''train.json''],
      arg_dev_path = [''dev.json''], arg_base_model = None, arg_pipeline = ''tagger,parser'',
      arg_vectors = None, arg_n_iter = 5, arg_n_examples = 0, arg_use_gpu = - 1,
      arg_version = ''0.0.0'', arg_meta_path = None, arg_parser_multitasks = [],
      arg_entity_multitasks = [], arg_noise_level = 0, arg_gold_preproc = False,
      arg_learn_tokens = False, arg_verbose = True, arg_debug = False\<rparr>"

definition ex_scores :: "nat \<Rightarrow> scores" where
  "ex_scores i =
     [''las'' \<mapsto> (if i = 0 then 0.80 else if i = 1 then 0.91 else 0.85), ''uas'' \<mapsto> 0.9,
      ''token_acc'' \<mapsto> 1, ''tags_acc'' \<mapsto> 0.95]"

definition ex_env :: "(event \<Rightarrow> py_error option) \<Rightarrow> (nat, string) env" where
  "ex_env r =
     \<lparr>train_path_exists = True, dev_path_exists = True, meta_path_exists = False,
      output_path_exists = True, meta_file = JsonOther, base_pipe_names = [],
      raises = r, train_docs = (\<lambda>i. [''ab'', ''cde'']), words_of = length,
      batch_sizes = (\<lambda>i k. 1000),
      update_effect = (\<lambda>i j batch pa. (\<lambda>c. Suc (fst pa c), \<lambda>c. 100 + fst pa c)),
      serialised = (\<lambda>c. True), nlp_meta = empty_meta, dev_words = (\<lambda>i. 100),
      eval_scores = (\<lambda>i d. ex_scores i),
      elapsed = (\<lambda>i d. case d of Baseline \<Rightarrow> 2 | Accelerated \<Rightarrow> 1 / 2),
      nlp_lang = ''en'', about_version = ''2.0.12'', vocab_vectors = (0, 0, 0)\<rparr>"

definition no_raise :: "event \<Rightarrow> py_error option" where
  "no_raise ev = None"

text \<open>The world before a run into an empty output directory.\<close>

definition ex_start :: "nat world" where
  "ex_start = world_of [] empty_meta"

text \<open>A collaborator that fails: saving the snapshot of epoch 0 raises.\<close>

definition raise_to_disk :: "event \<Rightarrow> py_error option" where
  "raise_to_disk ev =
     (if ev = EvToDisk [''out'', ''model0''] then Some (CollaboratorError ''to_disk'') else None)"

text \<open>
  A multitask objective list is configured for a component (parser or ner) that the
  pipeline list does not name.
\<close>

definition multitask_misconfigured :: "args \<Rightarrow> bool" where
  "multitask_misconfigured a =
     ((arg_parser_multitasks a \<noteq> [] \<and> ''parser'' \<notin> set (the_pipeline a)) \<or>
      (arg_entity_multitasks a \<noteq> [] \<and> ''ner'' \<notin> set (the_pipeline a)))"

text \<open>The message of the configuration error for a component.\<close>

definition needs_in_pipeline :: "string \<Rightarrow> py_error" where
  "needs_in_pipeline pipe_name =
     ValueError (''Needs '' @ [CHR 0x27] @ pipe_name @ [CHR 0x27] @ '' in pipeline'')"

text \<open>The objectives that a configured list registers on a component.\<close>

definition configured_objectives :: "string \<Rightarrow> string \<Rightarrow> (string \<times> string) list" where
  "configured_objectives pipe_name multitasks =
     (if multitasks = [] then [] else map (Pair pipe_name) (split_on (CHR '','') multitasks))"

text \<open>Scenario B: \<^verbatim>\<open>--entity-multitasks dep\<close> with the pipeline \<^verbatim>\<open>tagger,parser\<close>.\<close>

definition ex_args_scenario_b :: args where
  "ex_args_scenario_b = ex_args\<lparr>arg_entity_multitasks := ''dep''\<rparr>"

text \<open>Objectives for both components of the pipeline \<^verbatim>\<open>parser,ner\<close>.\<close>

definition ex_args_multitasks :: args where
  "ex_args_multitasks =
     ex_args\<lparr>arg_pipeline := ''parser, ner'', arg_parser_multitasks := ''dep,tag'',
       arg_entity_multitasks := ''dep''\<rparr>"


section \<open>Reasoning about computations\<close>

text \<open>A computation that leaves an observation of the world as it was.\<close>

definition preserves :: "('w world \<Rightarrow> 'x) \<Rightarrow> ('w, 'a) prog \<Rightarrow> bool" where
  "preserves f m = (\<forall>s. f (snd (m s)) = f s)"

text \<open>
  A computation that leaves the verbosity flag at \<open>b\<close> when it completes, and as it
  was when it raises.
\<close>

definition restores_log :: "bool \<Rightarrow> ('w, 'a) prog \<Rightarrow> bool" where
  "restores_log b m =
     (\<forall>s. case m s of (Ok _, s') \<Rightarrow> env_log s' = b | (Raised _, s') \<Rightarrow> env_log s' = env_log s)"

text \<open>
  The calls that are training work: the corpus, the optimizer, the updates, and all that
  the checkpoint, the final save and the composer do. The others belong to the set-up.
\<close>

fun training_work :: "event \<Rightarrow> bool" where
  "training_work (EvMkdir p) = False"
| "training_work (EvReadJson p) = False"
| "training_work (EvLoadModel m) = False"
| "training_work (EvGetLangClass l) = False"
| "training_work (EvDisablePipes ps) = False"
| "training_work (EvAddPipe p) = False"
| "training_work (EvLoadVectors v) = False"
| "training_work (EvGetPipe p) = False"
| "training_work (EvAddObjective p ob) = False"
| "training_work ev = True"

text \<open>A computation whose calls all satisfy \<open>P\<close>.\<close>

definition appends :: "(event \<Rightarrow> bool) \<Rightarrow> ('w, 'a) prog \<Rightarrow> bool" where
  "appends P m = (\<forall>s. \<exists>evs. events (snd (m s)) = events s @ evs \<and> list_all P evs)"

text \<open>The part of the set-up that comes before the corpus is counted.\<close>

definition setup_before_corpus :: "args \<Rightarrow> ('w, 'd) env \<Rightarrow> ('w, unit) prog" where
  "setup_before_corpus a env =
     py_seq (set_env_log (arg_verbose a))
    (py_seq (check_paths a env)
    (py_seq (setup_pipeline a env (the_pipeline a))
            (multitask_objectives a env (the_pipeline a))))"

text \<open>The entry \<^verbatim>\<open>model-best\<close> of the output directory, if there is one.\<close>

definition best_entry :: "'w world \<Rightarrow> 'w entry option" where
  "best_entry s = map_of (out_dir s) ''model-best''"


section \<open>The tournament: \<^verbatim>\<open>_find_best\<close>\<close>

subsection \<open>Python's max is the maximum\<close>

lemma py_max_from_Max: "py_max_from m xs = Max (set (m # xs))"
proof (induction xs arbitrary: m)
  case Nil
  then show ?case by simp
next
  case (Cons x xs)
  have "Max (insert (if m < x then x else m) (set xs)) = Max (insert m (insert x (set xs)))"
  proof (cases "set xs = {}")
    case True
    then show ?thesis by (auto simp: max_def)
  next
    case False
    then show ?thesis by (auto simp: max_def)
  qed
  with Cons show ?case by simp
qed

lemma py_max_Max: "xs \<noteq> [] \<Longrightarrow> py_max xs = Max (set xs)"
  by (cases xs) (simp_all add: py_max_def py_max_from_Max)

subsection \<open>What the scan returns\<close>

lemma find_best_scan_complete:
  "\<forall>c \<in> set (epoch_candidates dir). accuracy_json (snd c) \<noteq> None \<Longrightarrow>
   find_best_scan experiment_dir component dir acc =
     Inr (acc @ map (candidate_row experiment_dir component) (epoch_candidates dir))"
  by (induction dir arbitrary: acc rule: epoch_candidates.induct)
     (auto simp: candidate_row_def)

lemma find_best_scan_missing:
  "\<exists>c \<in> set (epoch_candidates dir). accuracy_json (snd c) = None \<Longrightarrow>
   \<exists>c \<in> set (epoch_candidates dir). accuracy_json (snd c) = None \<and>
     find_best_scan experiment_dir component dir acc =
       Inl (FileNotFoundError (slash (slash experiment_dir (fst c)) ''accuracy.json''))"
proof (induction dir arbitrary: acc rule: epoch_candidates.induct)
  case 1
  then show ?case by simp
next
  case (2 name rest)
  then show ?case by simp
next
  case (3 name d rest)
  show ?case
  proof (cases "name \<noteq> ''model-final''")
    case False
    with 3 show ?thesis by simp
  next
    case True
    note nf = this
    show ?thesis
    proof (cases "accuracy_json d")
      case None
      with nf show ?thesis by simp
    next
      case (Some accs)
      with nf 3(3) have "\<exists>c \<in> set (epoch_candidates rest). accuracy_json (snd c) = None"
        by auto
      from 3(1)[OF nf this] nf Some show ?thesis by simp
    qed
  qed
qed

lemma epoch_candidates_set:
  "(name, d) \<in> set (epoch_candidates dir) \<longleftrightarrow>
     (name, ModelDir d) \<in> set dir \<and> name \<noteq> ''model-final''"
  by (induction dir rule: epoch_candidates.induct) auto

lemma slash_le_iff: "slash dir a \<le> slash dir b \<longleftrightarrow> a \<le> b"
  by (induction dir) (auto simp: slash_def)

lemma find_best_complete:
  assumes "find_best experiment_dir dir component = Inr r"
  shows "\<forall>c \<in> set (epoch_candidates dir). accuracy_json (snd c) \<noteq> None"
proof (rule ccontr)
  assume "\<not> ?thesis"
  then have "\<exists>c \<in> set (epoch_candidates dir). accuracy_json (snd c) = None" by simp
  from find_best_scan_missing[OF this, of experiment_dir component "[]"] assms show False
    by (auto simp: find_best_def)
qed

lemma find_best_eq:
  assumes "\<forall>c \<in> set (epoch_candidates dir). accuracy_json (snd c) \<noteq> None"
  shows "find_best experiment_dir dir component =
     Inr (if epoch_candidates dir = [] then None
          else Some (snd (Max (set (map (candidate_row experiment_dir component)
                 (epoch_candidates dir))))))"
  using find_best_scan_complete[OF assms, of experiment_dir component "[]"]
  by (simp add: find_best_def py_max_Max)

lemma find_best_Some:
  assumes "find_best experiment_dir dir component = Inr (Some p)"
  shows "\<exists>w \<in> set (epoch_candidates dir).
           p = slash experiment_dir (fst w) \<and>
           (\<forall>c \<in> set (epoch_candidates dir). accuracy_json (snd c) \<noteq> None \<and>
              candidate_row experiment_dir component c \<le> candidate_row experiment_dir component w)"
proof -
  have all: "\<forall>c \<in> set (epoch_candidates dir). accuracy_json (snd c) \<noteq> None"
    using find_best_complete[OF assms] .
  let ?rows = "map (candidate_row experiment_dir component) (epoch_candidates dir)"
  from find_best_eq[OF all, of experiment_dir component] assms
  have ne: "?rows \<noteq> []" and p: "p = snd (Max (set ?rows))"
    by (auto split: if_splits)
  have "Max (set ?rows) \<in> set ?rows" using ne by (intro Max_in) auto
  then obtain w where w: "w \<in> set (epoch_candidates dir)"
    and mw: "Max (set ?rows) = candidate_row experiment_dir component w" by auto
  have "\<forall>c \<in> set (epoch_candidates dir).
          candidate_row experiment_dir component c \<le> candidate_row experiment_dir component w"
    using mw by (metis Max_ge List.finite_set image_eqI list.set_map)
  moreover have "p = slash experiment_dir (fst w)"
    using p mw by (simp add: candidate_row_def)
  ultimately show ?thesis using w all by blast
qed

text \<open>
  The order on score lists is the lexicographic one: of two lists of the same length, the
  smaller is the one that is smaller at the first position where they differ.
\<close>

lemma lex_le_first_difference:
  fixes xs ys :: "'a::linorder list"
  assumes "length xs = length ys"
  shows "xs \<le> ys \<longleftrightarrow>
     xs = ys \<or> (\<exists>i < length xs. take i xs = take i ys \<and> xs ! i < ys ! i)"
  using assms
proof (induction xs ys rule: list_induct2)
  case Nil
  then show ?case by simp
next
  case (Cons x xs y ys)
  have "(\<exists>i < Suc (length xs). take i (x # xs) = take i (y # ys) \<and> (x # xs) ! i < (y # ys) ! i)
      \<longleftrightarrow> x < y \<or> (x = y \<and> (\<exists>j < length xs. take j xs = take j ys \<and> xs ! j < ys ! j))"
    (is "?L \<longleftrightarrow> ?R")
  proof
    assume ?L
    then obtain i where i: "i < Suc (length xs)" "take i (x # xs) = take i (y # ys)"
      "(x # xs) ! i < (y # ys) ! i" by blast
    show ?R
    proof (cases i)
      case 0
      with i show ?thesis by simp
    next
      case (Suc j)
      with i show ?thesis by auto
    qed
  next
    assume ?R
    then show ?L
    proof
      assume "x < y"
      then have "take 0 (x # xs) = take 0 (y # ys) \<and> (x # xs) ! 0 < (y # ys) ! 0" by simp
      then show ?L by blast
    next
      assume "x = y \<and> (\<exists>j < length xs. take j xs = take j ys \<and> xs ! j < ys ! j)"
      then obtain j where "x = y" "j < length xs" "take j xs = take j ys" "xs ! j < ys ! j"
        by blast
      then have "Suc j < Suc (length xs) \<and> take (Suc j) (x # xs) = take (Suc j) (y # ys) \<and>
        (x # xs) ! Suc j < (y # ys) ! Suc j" by simp
      then show ?L by blast
    qed
  qed
  with Cons show ?case by auto
qed

lemma length_project_scores [simp]:
  "length (project_scores accs component) = length (get_metrics component)"
  by (simp add: project_scores_def)



subsection \<open>Claims about the tournament\<close>

lemmas ex_simps = epoch_dir_def snapshot_dir_def find_best_def project_scores_def get_metrics_def
  slash_def py_max_def ranking_tuple_def

text \<open>
  Claim C8. The metric tuple is (las, uas, token_acc) for the parser, (tags_acc) for the
  tagger, (ents_f, ents_p, ents_r) for ner and (token_acc) for every other component name;
  the projection of an accuracy record takes the record's value for each metric of the
  tuple and 0.0 for a metric the record does not have; and when \<open>find_best\<close> returns a
  winner, it is a candidate directory whose tuple every candidate's tuple either equals or
  is below at the first position where the two differ (lexicographic comparison, the first
  element most significant).
\<close>

theorem find_best_ranks_by_metric_tuple:
  "get_metrics ''parser'' = [''las'', ''uas'', ''token_acc''] \<and>
   get_metrics ''tagger'' = [''tags_acc''] \<and>
   get_metrics ''ner'' = [''ents_f'', ''ents_p'', ''ents_r''] \<and>
   (component \<noteq> ''parser'' \<and> component \<noteq> ''tagger'' \<and> component \<noteq> ''ner'' \<longrightarrow>
      get_metrics component = [''token_acc'']) \<and>
   project_scores accs component =
     map (\<lambda>metric. if metric \<in> dom accs then the (accs metric) else 0) (get_metrics component) \<and>
   (find_best experiment_dir dir component = Inr (Some p) \<longrightarrow>
      (\<exists>w \<in> set (epoch_candidates dir). p = slash experiment_dir (fst w) \<and>
         (\<forall>c \<in> set (epoch_candidates dir).
            ranking_tuple component c = ranking_tuple component w \<or>
            (\<exists>i < length (get_metrics component).
               take i (ranking_tuple component c) = take i (ranking_tuple component w) \<and>
               ranking_tuple component c ! i < ranking_tuple component w ! i))))"
proof -
  have table: "get_metrics ''parser'' = [''las'', ''uas'', ''token_acc''] \<and>
     get_metrics ''tagger'' = [''tags_acc''] \<and>
     get_metrics ''ner'' = [''ents_f'', ''ents_p'', ''ents_r''] \<and>
     (component \<noteq> ''parser'' \<and> component \<noteq> ''tagger'' \<and> component \<noteq> ''ner'' \<longrightarrow>
        get_metrics component = [''token_acc''])"
    by (simp add: get_metrics_def)
  have proj: "project_scores accs component =
     map (\<lambda>metric. if metric \<in> dom accs then the (accs metric) else 0) (get_metrics component)"
    by (auto simp: project_scores_def split: option.splits)
  have rank: "\<exists>w \<in> set (epoch_candidates dir). p = slash experiment_dir (fst w) \<and>
         (\<forall>c \<in> set (epoch_candidates dir).
            ranking_tuple component c = ranking_tuple component w \<or>
            (\<exists>i < length (get_metrics component).
               take i (ranking_tuple component c) = take i (ranking_tuple component w) \<and>
               ranking_tuple component c ! i < ranking_tuple component w ! i))"
    if fb: "find_best experiment_dir dir component = Inr (Some p)"
  proof -
    from find_best_Some[OF fb] obtain w where w: "w \<in> set (epoch_candidates dir)"
      and p: "p = slash experiment_dir (fst w)"
      and le: "\<forall>c \<in> set (epoch_candidates dir).
         candidate_row experiment_dir component c \<le> candidate_row experiment_dir component w"
      by blast
    have "ranking_tuple component c = ranking_tuple component w \<or>
            (\<exists>i < length (get_metrics component).
               take i (ranking_tuple component c) = take i (ranking_tuple component w) \<and>
               ranking_tuple component c ! i < ranking_tuple component w ! i)"
      if c: "c \<in> set (epoch_candidates dir)" for c
    proof -
      from le c have "ranking_tuple component c \<le> ranking_tuple component w"
        by (auto simp: candidate_row_def ranking_tuple_def less_eq_prod_def)
      moreover have "length (ranking_tuple component c) = length (ranking_tuple component w)"
        by (simp add: ranking_tuple_def)
      ultimately show ?thesis
        using lex_le_first_difference[of "ranking_tuple component c" "ranking_tuple component w"]
        by (simp add: ranking_tuple_def)
    qed
    with w p show ?thesis by blast
  qed
  from table proj rank show ?thesis by blast
qed


text \<open>
  Three epochs for the parser: model0 and model1 tie on las, model0 has no token_acc
  (taken as 0.0) and the lower uas; model2 has the highest uas and token_acc but the lowest
  las. The winner is model1.
\<close>

theorem find_best_ranks_by_metric_tuple_witness:
  "find_best [''out''] ex_uas_decides ''parser'' = Inr (Some [''out'', ''model1'']) \<and>
   map (ranking_tuple ''parser'') (epoch_candidates ex_uas_decides) =
     [[0.9, 0.8, 0], [0.9, 0.85, 0.5], [0.7, 0.99, 0.99]] \<and>
   (\<exists>w \<in> set (epoch_candidates ex_uas_decides). [''out'', ''model1''] = slash [''out''] (fst w) \<and>
         (\<forall>c \<in> set (epoch_candidates ex_uas_decides).
            ranking_tuple ''parser'' c = ranking_tuple ''parser'' w \<or>
            (\<exists>i < length (get_metrics ''parser'').
               take i (ranking_tuple ''parser'' c) = take i (ranking_tuple ''parser'' w) \<and>
               ranking_tuple ''parser'' c ! i < ranking_tuple ''parser'' w ! i)))"
proof -
  have h: "find_best [''out''] ex_uas_decides ''parser'' = Inr (Some [''out'', ''model1''])"
    by (simp add: ex_uas_decides_def ex_simps)
  have t: "map (ranking_tuple ''parser'') (epoch_candidates ex_uas_decides) =
     [[0.9, 0.8, 0], [0.9, 0.85, 0.5], [0.7, 0.99, 0.99]]"
    by (simp add: ex_uas_decides_def ex_simps)
  from find_best_ranks_by_metric_tuple[of "''parser''" Map.empty "[''out'']" ex_uas_decides
      "[''out'', ''model1'']"] h t
  show ?thesis by blast
qed

text \<open>
  Claim C4. When \<open>find_best\<close> returns a winner, every candidate whose ranking tuple
  equals the winner's has a location that is at most the winner's location in the order of
  the paths, which for children of one directory is the lexicographic order of their names
  as strings: among tied epochs the one with the greatest name wins.
\<close>

theorem find_best_tie_break:
  assumes "find_best experiment_dir dir component = Inr (Some p)"
  shows "\<exists>w \<in> set (epoch_candidates dir). p = slash experiment_dir (fst w) \<and>
     (\<forall>c \<in> set (epoch_candidates dir).
        ranking_tuple component c = ranking_tuple component w \<longrightarrow>
          slash experiment_dir (fst c) \<le> p \<and> fst c \<le> fst w)"
proof -
  from find_best_Some[OF assms] obtain w where w: "w \<in> set (epoch_candidates dir)"
    and p: "p = slash experiment_dir (fst w)"
    and le: "\<forall>c \<in> set (epoch_candidates dir).
       candidate_row experiment_dir component c \<le> candidate_row experiment_dir component w"
    by blast
  have "slash experiment_dir (fst c) \<le> p \<and> fst c \<le> fst w"
    if c: "c \<in> set (epoch_candidates dir)"
      and tie: "ranking_tuple component c = ranking_tuple component w" for c
  proof -
    from le c tie have "slash experiment_dir (fst c) \<le> slash experiment_dir (fst w)"
      by (auto simp: candidate_row_def ranking_tuple_def less_eq_prod_def)
    then show ?thesis using p by (simp add: slash_le_iff)
  qed
  with w p show ?thesis by blast
qed


text \<open>
  The epochs model9 and model10 tie for the tagger; as strings, \<open>model10 < model9\<close>, and
  the winner is model9, not the later epoch.
\<close>

theorem find_best_tie_break_witness:
  "find_best [''out''] ex_tie ''tagger'' = Inr (Some [''out'', ''model9'']) \<and>
   map (\<lambda>c. (fst c, ranking_tuple ''tagger'' c)) (epoch_candidates ex_tie) =
     [(''model8'', [0.9]), (''model9'', [0.95]), (''model10'', [0.95])] \<and>
   (''model10'' :: string) < ''model9'' \<and>
   (\<exists>w \<in> set (epoch_candidates ex_tie). [''out'', ''model9''] = slash [''out''] (fst w) \<and>
     (\<forall>c \<in> set (epoch_candidates ex_tie).
        ranking_tuple ''tagger'' c = ranking_tuple ''tagger'' w \<longrightarrow>
          slash [''out''] (fst c) \<le> [''out'', ''model9''] \<and> fst c \<le> fst w))"
proof -
  have h: "find_best [''out''] ex_tie ''tagger'' = Inr (Some [''out'', ''model9''])"
    by (simp add: ex_tie_def ex_simps)
  have t: "map (\<lambda>c. (fst c, ranking_tuple ''tagger'' c)) (epoch_candidates ex_tie) =
     [(''model8'', [0.9]), (''model9'', [0.95]), (''model10'', [0.95])]"
    by (simp add: ex_tie_def ex_simps)
  have lt: "(''model10'' :: string) < ''model9''" by simp
  from find_best_tie_break[OF h] h t lt show ?thesis by blast
qed

text \<open>
  Claim C10. If the experiment directory has a sub-directory that is not named
  \<^verbatim>\<open>model-final\<close> and holds no \<^verbatim>\<open>accuracy.json\<close>, then \<open>find_best\<close> raises
  \<^verbatim>\<open>FileNotFoundError\<close> for the accuracy record of such a directory, for every
  component; and \<open>collate_best_model\<close>, for a pipeline with a component, raises and leaves
  the world as it was.
\<close>

theorem find_best_fails_without_accuracy_record:
  assumes "(name, ModelDir d) \<in> set dir" and "name \<noteq> ''model-final''"
    and "accuracy_json d = None"
  shows "(\<exists>n. n \<noteq> ''model-final'' \<and> n \<in> fst ` set dir \<and>
            find_best experiment_dir dir component =
              Inl (FileNotFoundError (slash (slash experiment_dir n) ''accuracy.json''))) \<and>
         (\<forall>s. out_dir s = dir \<longrightarrow>
            (\<exists>e. collate_best_model experiment_dir (component # components) s = (Raised e, s)))"
proof -
  from assms have "\<exists>c \<in> set (epoch_candidates dir). accuracy_json (snd c) = None"
    using epoch_candidates_set[of name d dir] by force
  from find_best_scan_missing[OF this, of experiment_dir component "[]"]
  obtain c where c: "c \<in> set (epoch_candidates dir)"
    and fb: "find_best experiment_dir dir component =
       Inl (FileNotFoundError (slash (slash experiment_dir (fst c)) ''accuracy.json''))"
    by (auto simp: find_best_def)
  from c have "fst c \<noteq> ''model-final'' \<and> fst c \<in> fst ` set dir"
    using epoch_candidates_set[of "fst c" "snd c" dir] by force
  moreover have "\<exists>e. collate_best_model experiment_dir (component # components) s = (Raised e, s)"
    if "out_dir s = dir" for s :: "'a world"
    using that fb by (simp add: collate_best_model_def py_bind_def)
  ultimately show ?thesis using fb by blast
qed


text \<open>
  An output directory with \<^verbatim>\<open>model-best\<close> left by an earlier run (a snapshot with
  \<^verbatim>\<open>meta.json\<close> and no \<^verbatim>\<open>accuracy.json\<close>): the tournament fails on it.
\<close>

theorem find_best_fails_without_accuracy_record_witness:
  "find_best [''out''] ex_stale_best ''tagger'' =
     Inl (FileNotFoundError [''out'', ''model-best'', ''accuracy.json'']) \<and>
   (\<exists>n. n \<noteq> ''model-final'' \<and> n \<in> fst ` set ex_stale_best \<and>
      find_best [''out''] ex_stale_best ''tagger'' =
        Inl (FileNotFoundError (slash (slash [''out''] n) ''accuracy.json''))) \<and>
   (\<exists>e. collate_best_model [''out''] [''tagger'', ''parser''] (world_of ex_stale_best empty_meta) =
      (Raised e, world_of ex_stale_best empty_meta))"
proof -
  have h: "find_best [''out''] ex_stale_best ''tagger'' =
     Inl (FileNotFoundError [''out'', ''model-best'', ''accuracy.json''])"
    by (simp add: ex_stale_best_def ex_simps)
  have m: "(''model-best'', ModelDir \<lparr>comps = [''tagger'' \<mapsto> 0, ''parser'' \<mapsto> 0, ''ner'' \<mapsto> 0],
       accuracy_json = None, meta_json = Some empty_meta\<rparr>) \<in> set ex_stale_best"
    by (simp add: ex_stale_best_def snapshot_dir_def)
  have o: "out_dir (world_of ex_stale_best empty_meta) = ex_stale_best"
    by (simp add: world_of_def)
  from find_best_fails_without_accuracy_record[OF m, of "[''out'']" "''tagger''" "[''parser'']"]
    h o show ?thesis by simp
qed

text \<open>
  Claim C5, evaluated. With no epoch directory under the output path (only
  \<^verbatim>\<open>model-final\<close>), \<open>find_best\<close> returns \<^verbatim>\<open>None\<close> for the tagger; the composer
  then copies \<^verbatim>\<open>model-final\<close> to \<^verbatim>\<open>model-best\<close>, removes the tagger from the copy
  and raises \<^verbatim>\<open>TypeError\<close> on \<^verbatim>\<open>None / component\<close>: the composite is left
  without the tagger, and the composition does not complete.
\<close>

theorem collate_best_model_no_epochs_raises:
  "find_best [''out''] ex_no_epochs ''tagger'' = Inr None \<and>
   fst (collate_best_model [''out''] [''tagger''] (world_of ex_no_epochs empty_meta)) =
     Raised (TypeError ''unsupported operand type(s) for /'') \<and>
   (case map_of (out_dir (snd (collate_best_model [''out''] [''tagger'']
        (world_of ex_no_epochs empty_meta)))) ''model-best'' of
      Some (ModelDir d) \<Rightarrow> comps d ''tagger'' = None \<and> comps d ''parser'' = Some 0
    | _ \<Rightarrow> False)"
  by (simp add: ex_no_epochs_def ex_simps collate_best_model_def py_bind_def py_seq_def
      copytree_def dir_at_def put_dir_def world_of_def install_best_def rmtree_component_def
      py_raise_def Let_def)


section \<open>The minibatch partitioner\<close>


lemma minibatch_from_concat:
  "concat (minibatch_by_words_from count_words sizes k batch n_words items) = batch @ items"
  by (induction items arbitrary: k batch n_words) auto

lemma minibatch_from_nonempty:
  "[] \<notin> set (minibatch_by_words_from count_words sizes k batch n_words items)"
  by (induction items arbitrary: k batch n_words) auto

lemma minibatch_from_targets:
  assumes "n_words = batch_words count_words batch"
    and "Suc j < length (minibatch_by_words_from count_words sizes k batch n_words items)"
  shows "sizes (k + j) \<le>
     real (batch_words count_words (minibatch_by_words_from count_words sizes k batch n_words items ! j))"
  using assms
proof (induction items arbitrary: k batch n_words j)
  case Nil
  then show ?case by (simp split: if_splits)
next
  case (Cons item items)
  show ?case
  proof (cases "sizes k \<le> real (n_words + count_words item)")
    case True
    note closed = this
    show ?thesis
    proof (cases j)
      case 0
      with closed Cons.prems(1) show ?thesis by (simp add: batch_words_def)
    next
      case (Suc j')
      have "0 = batch_words count_words []" by (simp add: batch_words_def)
      moreover from Cons.prems(2) closed Suc
      have "Suc j' < length (minibatch_by_words_from count_words sizes (Suc k) [] 0 items)"
        by simp
      ultimately have "sizes (Suc k + j') \<le> real (batch_words count_words
          (minibatch_by_words_from count_words sizes (Suc k) [] 0 items ! j'))"
        by (rule Cons.IH)
      with closed Suc show ?thesis by simp
    qed
  next
    case False
    have "n_words + count_words item = batch_words count_words (batch @ [item])"
      using Cons.prems(1) by (simp add: batch_words_def)
    moreover from Cons.prems(2) False
    have "Suc j < length (minibatch_by_words_from count_words sizes k (batch @ [item])
             (n_words + count_words item) items)" by simp
    ultimately have "sizes (k + j) \<le> real (batch_words count_words
        (minibatch_by_words_from count_words sizes k (batch @ [item])
           (n_words + count_words item) items ! j))"
      by (rule Cons.IH)
    with False show ?thesis by simp
  qed
qed

text \<open>
  Claim C9. For every finite list of examples and every batch-size schedule, the batches
  of \<open>minibatch_by_words\<close>, concatenated in order, are the input; no batch is empty, so
  the epoch loop, which skips empty batches, updates on every example exactly once; and
  every batch but the last has a token count of at least the target drawn for it (the
  \<open>j\<close>-th batch has the \<open>j\<close>-th target).
\<close>

theorem minibatch_by_words_partitions:
  "concat (minibatch_by_words count_words items sizes) = items \<and>
   [] \<notin> set (minibatch_by_words count_words items sizes) \<and>
   concat [batch \<leftarrow> minibatch_by_words count_words items sizes. batch \<noteq> []] = items \<and>
   (\<forall>j. Suc j < length (minibatch_by_words count_words items sizes) \<longrightarrow>
      sizes j \<le> real (batch_words count_words (minibatch_by_words count_words items sizes ! j)))"
proof -
  let ?bs = "minibatch_by_words count_words items sizes"
  have c: "concat ?bs = items"
    by (simp add: minibatch_by_words_def minibatch_from_concat)
  have n: "[] \<notin> set ?bs"
    by (simp add: minibatch_by_words_def minibatch_from_nonempty)
  from n have "[batch \<leftarrow> ?bs. batch \<noteq> []] = ?bs"
    by (simp add: filter_id_conv) metis
  with c have f: "concat [batch \<leftarrow> ?bs. batch \<noteq> []] = items" by simp
  have z: "0 = batch_words count_words []" by (simp add: batch_words_def)
  have t: "sizes j \<le> real (batch_words count_words (?bs ! j))" if "Suc j < length ?bs" for j
    using minibatch_from_targets[OF z, of j sizes 0 items] that
    unfolding minibatch_by_words_def by simp
  from c n f t show ?thesis by blast
qed

text \<open>
  Five examples of 2, 3, 1, 6 and 1 tokens with the targets 4.5, 3, 3, ...: the batches
  are (2, 3), (1, 6) and the final (1); the second batch has 7 tokens for a target of 3.
\<close>

theorem minibatch_by_words_partitions_witness:
  "minibatch_by_words length [''ab'', ''cde'', ''f'', ''ghijkl'', ''m''] (\<lambda>k. if k = 0 then 4.5 else 3) =
     [[''ab'', ''cde''], [''f'', ''ghijkl''], [''m'']] \<and>
   concat (minibatch_by_words length [''ab'', ''cde'', ''f'', ''ghijkl'', ''m''] (\<lambda>k. if k = 0 then 4.5 else 3))
     = [''ab'', ''cde'', ''f'', ''ghijkl'', ''m''] \<and>
   (3::real) \<le> real (batch_words length
       (minibatch_by_words length [''ab'', ''cde'', ''f'', ''ghijkl'', ''m''] (\<lambda>k. if k = 0 then 4.5 else 3) ! 1))"
proof -
  have e: "minibatch_by_words length [''ab'', ''cde'', ''f'', ''ghijkl'', ''m''] (\<lambda>k. if k = 0 then 4.5 else 3) =
     [[''ab'', ''cde''], [''f'', ''ghijkl''], [''m'']]"
    by (simp add: minibatch_by_words_def)
  from minibatch_by_words_partitions[of length "[''ab'', ''cde'', ''f'', ''ghijkl'', ''m'']"
      "\<lambda>k. if k = 0 then 4.5 else 3"] e
  show ?thesis by (simp add: batch_words_def)
qed



subsection \<open>Outcomes of the combinators\<close>

lemma py_seq_Ok:
  "py_seq m k s = (Ok u, s') \<longleftrightarrow> (\<exists>s1. m s = (Ok (), s1) \<and> k s1 = (Ok u, s'))"
  by (auto simp: py_seq_def py_bind_def split: prod.splits outcome.splits)

lemma py_bind_Ok:
  "py_bind m f s = (Ok u, s') \<longleftrightarrow> (\<exists>x s1. m s = (Ok x, s1) \<and> f x s1 = (Ok u, s'))"
  by (auto simp: py_bind_def split: prod.splits outcome.splits)

lemma call_Ok:
  "call env ev s = (Ok u, s') \<longleftrightarrow> raises env ev = None \<and> s' = s\<lparr>events := events s @ [ev]\<rparr>"
  by (auto simp: call_def split: option.splits)

lemma modify_Ok: "modify f s = (Ok u, s') \<longleftrightarrow> s' = f s"
  by (auto simp: modify_def)

lemma py_return_Ok: "py_return x s = (Ok u, s') \<longleftrightarrow> u = x \<and> s' = s"
  by (auto simp: py_return_def)

lemma py_raise_Ok: "py_raise e s = (Ok u, s') \<longleftrightarrow> False"
  by (simp add: py_raise_def)

lemma try_finally_Ok:
  "try_finally body fin s = (Ok u, s') \<longleftrightarrow>
     (\<exists>s1. body s = (Ok u, s1) \<and> fin s1 = (Ok (), s'))"
  by (auto simp: try_finally_def split: prod.splits outcome.splits)

lemma with_scope_Ok:
  "with_scope enter leave body s = (Ok u, s') \<longleftrightarrow>
     (\<exists>s1 s2. enter s = (Ok (), s1) \<and> body s1 = (Ok u, s2) \<and> leave s2 = (Ok (), s'))"
  by (auto simp: with_scope_def py_seq_Ok try_finally_Ok)

lemmas Ok_iffs = py_seq_Ok py_bind_Ok call_Ok modify_Ok py_return_Ok py_raise_Ok try_finally_Ok
  with_scope_Ok

lemma py_seq_modify: "py_seq (modify f) k s = k (f s)"
  by (simp add: py_seq_def py_bind_def modify_def)

lemma try_finally_modify:
  "try_finally body (modify f) s = (case body s of (r, s') \<Rightarrow> (r, f s'))"
  by (simp add: try_finally_def modify_def split: prod.splits)

lemma with_scope_modify:
  "with_scope (modify f) (modify g) body s = (case body (f s) of (r, s') \<Rightarrow> (r, g s'))"
  by (simp add: with_scope_def py_seq_modify try_finally_modify)

lemma preserves_return: "preserves f (py_return x)"
  by (simp add: preserves_def py_return_def)

lemma preserves_raise: "preserves f (py_raise e)"
  by (simp add: preserves_def py_raise_def)

lemma preserves_bind:
  "preserves f m \<Longrightarrow> (\<And>x. preserves f (k x)) \<Longrightarrow> preserves f (py_bind m k)"
  unfolding preserves_def py_bind_def
  by (auto split: prod.splits outcome.splits) (metis snd_conv)+

lemma preserves_seq: "preserves f m \<Longrightarrow> preserves f k \<Longrightarrow> preserves f (py_seq m k)"
  by (simp add: py_seq_def preserves_bind)

lemma preserves_try_finally:
  "preserves f body \<Longrightarrow> preserves f fin \<Longrightarrow> preserves f (try_finally body fin)"
  unfolding preserves_def try_finally_def
  by (auto split: prod.splits outcome.splits) (metis snd_conv)+

lemma preserves_with_scope:
  "preserves f enter \<Longrightarrow> preserves f leave \<Longrightarrow> preserves f body \<Longrightarrow>
   preserves f (with_scope enter leave body)"
  by (simp add: with_scope_def preserves_seq preserves_try_finally)

lemma preserves_for_each:
  "(\<And>x. x \<in> set xs \<Longrightarrow> preserves f (body x)) \<Longrightarrow> preserves f (for_each xs body)"
  by (induction xs) (simp_all add: preserves_return preserves_seq)

lemma preserves_modify: "(\<And>s. f (g s) = f s) \<Longrightarrow> preserves f (modify g)"
  by (simp add: preserves_def modify_def)

lemma preserves_call:
  "(\<And>s ev. f (s\<lparr>events := events s @ [ev]\<rparr>) = f s) \<Longrightarrow> preserves f (call env ev)"
  by (simp add: preserves_def call_def split: option.splits)

lemma preserves_if:
  "(c \<Longrightarrow> preserves f m) \<Longrightarrow> (\<not> c \<Longrightarrow> preserves f k) \<Longrightarrow> preserves f (if c then m else k)"
  by simp

lemma preserves_lambda:
  "(\<And>s. f (snd (m s)) = f s) \<Longrightarrow> preserves f m"
  by (simp add: preserves_def)

lemmas preserves_intros = preserves_return preserves_raise preserves_bind preserves_seq
  preserves_try_finally preserves_with_scope preserves_for_each preserves_modify preserves_call
  preserves_if


section \<open>The checkpoint of an epoch\<close>

lemmas prog_defs = py_return_def py_raise_def py_bind_def py_seq_def try_finally_def
  with_scope_def modify_def emit_def call_def

lemmas train_defs = checkpoint_def use_params_averages_def use_device_cpu_def set_env_log_def
  to_disk_def evaluate_speed_def write_accuracy_json_def update_meta_def write_meta_json_def
  words_per_second_def active_device_def written_comps_def active_view_def put_dir_def
  dir_at_def slash_def epoch_model_name_def string_of_nat.simps
  train_def train_setup_def check_paths_def setup_pipeline_def add_pipe_def truthy_def
  multitask_objectives_def add_multitasks_def prepare_training_def epoch_loop_def epoch_def
  train_epoch_def update_batch_def minibatch_by_words_def final_save_def run_composer_def
  the_pipeline_def strip_def is_space_def

lemmas ex_defs = ex_args_def ex_env_def no_raise_def ex_start_def world_of_def ex_scores_def


subsection \<open>The verbosity flag and the scope of the averages\<close>

lemma preserves_env_log_to_disk: "preserves env_log (to_disk env p)"
  unfolding to_disk_def by (intro preserves_intros) simp_all

lemma preserves_env_log_evaluate_speed: "preserves env_log (evaluate_speed a env i p)"
  unfolding evaluate_speed_def Let_def words_per_second_def use_device_cpu_def
  by (intro preserves_intros) simp_all

lemma preserves_env_log_write_accuracy: "preserves env_log (write_accuracy_json env out p sc)"
  unfolding write_accuracy_json_def
  by (intro preserves_intros preserves_lambda) (simp_all split: option.splits)

lemma preserves_env_log_update_meta: "preserves env_log (update_meta a env i r)"
  unfolding update_meta_def
  by (cases r) (simp add: preserves_modify)

lemma preserves_env_log_write_meta: "preserves env_log (write_meta_json out p)"
  unfolding write_meta_json_def
  by (intro preserves_lambda) (simp_all split: option.splits)


lemma restores_log_set: "restores_log b (set_env_log b)"
  by (simp add: restores_log_def set_env_log_def modify_def)

lemma restores_log_bind:
  assumes "preserves env_log m" and "\<And>x. restores_log b (k x)"
  shows "restores_log b (py_bind m k)"
  unfolding restores_log_def
proof
  fix s
  obtain r s1 where m: "m s = (r, s1)" by (cases "m s")
  from assms(1) have "env_log (snd (m s)) = env_log s" by (simp add: preserves_def)
  with m have e: "env_log s1 = env_log s" by simp
  show "case py_bind m k s of (Ok _, s') \<Rightarrow> env_log s' = b
        | (Raised _, s') \<Rightarrow> env_log s' = env_log s"
  proof (cases r)
    case (Ok x)
    obtain r2 s2 where k: "k x s1 = (r2, s2)" by (cases "k x s1")
    from assms(2)[of x] have "case k x s1 of (Ok _, s') \<Rightarrow> env_log s' = b
        | (Raised _, s') \<Rightarrow> env_log s' = env_log s1"
      unfolding restores_log_def by (rule spec)
    with k have "case r2 of Ok _ \<Rightarrow> env_log s2 = b | Raised _ \<Rightarrow> env_log s2 = env_log s1"
      by simp
    moreover from m Ok k have "py_bind m k s = (r2, s2)" by (simp add: py_bind_def)
    ultimately show ?thesis using e by (cases r2) simp_all
  next
    case (Raised err)
    with m have "py_bind m k s = (Raised err, s1)" by (simp add: py_bind_def)
    with e show ?thesis by simp
  qed
qed

lemma restores_log_seq:
  "preserves env_log m \<Longrightarrow> restores_log b k \<Longrightarrow> restores_log b (py_seq m k)"
  by (simp add: py_seq_def restores_log_bind)

lemma checkpoint_body_restores_log:
  "restores_log (arg_verbose a)
     (py_seq (to_disk env p)
       (py_bind (evaluate_speed a env i p)
          (\<lambda>r. py_seq (write_accuracy_json env out p (fst r))
               (py_seq (update_meta a env i r)
               (py_seq (py_seq (call env (EvWriteJson (slash p ''meta.json'')))
                          (write_meta_json out p))
                       (set_env_log (arg_verbose a)))))))"
  by (intro restores_log_seq restores_log_bind restores_log_set preserves_seq
      preserves_env_log_to_disk preserves_env_log_evaluate_speed preserves_env_log_write_accuracy
      preserves_env_log_update_meta preserves_env_log_write_meta preserves_call) simp

text \<open>
  Claim C6, as the code has it. Whether the steps of the checkpoint complete or one of them
  raises, the scope of the averaged parameters is exited when the checkpoint is left. The
  verbosity is back at its configured value when all steps complete; when a step raises,
  it stays lowered: \<^verbatim>\<open>set_env_log(verbose)\<close> is the last statement of the block and
  is not reached.
\<close>

theorem checkpoint_scope_and_verbosity:
  "averages_active (snd (checkpoint a env i s)) = False \<and>
   (case fst (checkpoint a env i s) of
      Ok _ \<Rightarrow> env_log (snd (checkpoint a env i s)) = arg_verbose a
    | Raised _ \<Rightarrow> env_log (snd (checkpoint a env i s)) = False)"
proof -
  let ?p = "slash (arg_output_path a) (epoch_model_name i)"
  let ?rest = "py_seq (to_disk env ?p)
       (py_bind (evaluate_speed a env i ?p)
          (\<lambda>r. py_seq (write_accuracy_json env (arg_output_path a) ?p (fst r))
               (py_seq (update_meta a env i r)
               (py_seq (py_seq (call env (EvWriteJson (slash ?p ''meta.json'')))
                          (write_meta_json (arg_output_path a) ?p))
                       (set_env_log (arg_verbose a))))))"
  let ?s1 = "s\<lparr>averages_active := True, env_log := False\<rparr>"
  obtain r2 s2 where rest: "?rest ?s1 = (r2, s2)" by (cases "?rest ?s1")
  have "case ?rest ?s1 of (Ok _, s') \<Rightarrow> env_log s' = arg_verbose a
        | (Raised _, s') \<Rightarrow> env_log s' = env_log ?s1"
    using checkpoint_body_restores_log[of a env ?p i "arg_output_path a"]
    unfolding restores_log_def by (rule spec)
  with rest
  have log: "case r2 of Ok _ \<Rightarrow> env_log s2 = arg_verbose a | Raised _ \<Rightarrow> env_log s2 = False"
    by (cases r2) simp_all
  have "checkpoint a env i s =
      (case ?rest ?s1 of (r, s2) \<Rightarrow> (r, s2\<lparr>averages_active := False\<rparr>))"
    by (simp only: checkpoint_def use_params_averages_def Let_def with_scope_modify
        set_env_log_def py_seq_modify)
  with rest have "checkpoint a env i s = (r2, s2\<lparr>averages_active := False\<rparr>)"
    by simp
  with log show ?thesis by (cases r2) simp_all
qed

text \<open>
  A checkpoint that completes, with \<^verbatim>\<open>verbose\<close> set: the flag is set again and the
  scope is closed.
\<close>

theorem checkpoint_scope_and_verbosity_witness:
  "fst (checkpoint ex_args (ex_env no_raise) 0 ex_start) = Ok () \<and>
   arg_verbose ex_args = True \<and>
   averages_active (snd (checkpoint ex_args (ex_env no_raise) 0 ex_start)) = False \<and>
   env_log (snd (checkpoint ex_args (ex_env no_raise) 0 ex_start)) = True"
proof -
  have ok: "fst (checkpoint ex_args (ex_env no_raise) 0 ex_start) = Ok ()"
    by (simp add: train_defs prog_defs ex_defs Let_def)
  have v: "arg_verbose ex_args = True" by (simp add: ex_args_def)
  from checkpoint_scope_and_verbosity[of ex_args "ex_env no_raise" 0 ex_start] ok v
  show ?thesis by simp
qed

text \<open>
  Claim C6 as stated fails: with \<^verbatim>\<open>verbose\<close> set and the save of epoch 0 raising, the
  checkpoint is left with the verbosity lowered, not restored.
\<close>

theorem checkpoint_verbosity_counterexample:
  "arg_verbose ex_args = True \<and>
   env_log (ex_start\<lparr>env_log := True\<rparr>) = True \<and>
   fst (checkpoint ex_args (ex_env raise_to_disk) 0 (ex_start\<lparr>env_log := True\<rparr>)) =
     Raised (CollaboratorError ''to_disk'') \<and>
   env_log (snd (checkpoint ex_args (ex_env raise_to_disk) 0 (ex_start\<lparr>env_log := True\<rparr>))) =
     False"
  by (simp add: train_defs prog_defs ex_defs Let_def raise_to_disk_def)

subsection \<open>The speed record\<close>


lemma evaluate_speed_Ok:
  assumes "evaluate_speed a env i p s = (Ok r, s')"
  shows "r = (eval_scores env i Baseline, dev_words env i,
              real (dev_words env i) / elapsed env i Baseline,
              (if arg_use_gpu a < 0 then None
               else Some (real (dev_words env i) / elapsed env i Accelerated))) \<and>
         elapsed env i Baseline \<noteq> 0 \<and>
         events s' = events s @
           (if arg_use_gpu a < 0
            then [EvLoad p Baseline, EvDevDocs i Baseline, EvEvaluate i Baseline]
            else [EvLoad p Accelerated, EvDevDocs i Accelerated, EvEvaluate i Accelerated,
                  EvLoad p Baseline, EvDevDocs i Baseline, EvEvaluate i Baseline]) \<and>
         out_dir s' = out_dir s \<and> the_meta s' = the_meta s \<and> pipe_names s' = pipe_names s"
proof (cases "arg_use_gpu a < 0")
  case True
  with assms show ?thesis
    by (auto simp: evaluate_speed_def active_device_def Let_def words_per_second_def Ok_iffs
        split: if_splits)
next
  case False
  with assms show ?thesis
    by (auto simp: evaluate_speed_def active_device_def Let_def words_per_second_def Ok_iffs
        use_device_cpu_def split: if_splits)
qed


lemma dir_at_slash:
  "dir_at out dir (slash out n) =
     (case map_of dir n of Some (ModelDir d) \<Rightarrow> Some d | _ \<Rightarrow> None)"
  by (simp add: dir_at_def slash_def)

lemma map_of_put_dir:
  "map_of (put_dir (slash out n) d dir) = (map_of dir)(n \<mapsto> ModelDir d)"
  by (simp add: put_dir_def slash_def update_conv')

lemma dir_at_put_dir:
  "dir_at out (put_dir (slash out n) d dir) (slash out n') =
     (if n' = n then Some d else dir_at out dir (slash out n'))"
  by (simp add: dir_at_slash map_of_put_dir)

lemma to_disk_Ok:
  "to_disk env p s = (Ok u, s') \<longleftrightarrow>
     raises env (EvToDisk p) = None \<and>
     s' = s\<lparr>events := events s @ [EvToDisk p],
            out_dir := put_dir p
              (case map_of (out_dir s) (last p) of
                 Some (ModelDir d) \<Rightarrow>
                   d\<lparr>comps := written_comps env (s\<lparr>events := events s @ [EvToDisk p]\<rparr>) (comps d),
                     meta_json := Some (nlp_meta env)\<rparr>
               | _ \<Rightarrow>
                   \<lparr>comps = written_comps env (s\<lparr>events := events s @ [EvToDisk p]\<rparr>) Map.empty,
                    accuracy_json = None, meta_json = Some (nlp_meta env)\<rparr>)
              (out_dir s)\<rparr>"
  by (auto simp: to_disk_def Ok_iffs)

lemma write_accuracy_json_Ok:
  "write_accuracy_json env out p sc s = (Ok u, s') \<longleftrightarrow>
     raises env (EvWriteJson (slash p ''accuracy.json'')) = None \<and>
     (\<exists>d. dir_at out (out_dir s) p = Some d \<and>
        s' = s\<lparr>events := events s @ [EvWriteJson (slash p ''accuracy.json'')],
               out_dir := put_dir p (d\<lparr>accuracy_json := Some sc\<rparr>) (out_dir s)\<rparr>)"
  by (auto simp: write_accuracy_json_def Ok_iffs split: option.splits)

lemma write_meta_json_Ok:
  "write_meta_json out p s = (Ok u, s') \<longleftrightarrow>
     (\<exists>d. dir_at out (out_dir s) p = Some d \<and>
        s' = s\<lparr>out_dir := put_dir p (d\<lparr>meta_json := Some (the_meta s)\<rparr>) (out_dir s)\<rparr>)"
  by (auto simp: write_meta_json_def split: option.splits)

text \<open>
  Claim C3, as the code has it. When the checkpoint of an epoch completes, the speed record
  of \<^verbatim>\<open>meta\<close>, which is the one written to the epoch's \<^verbatim>\<open>meta.json\<close>, holds the
  number of words, the baseline throughput, and an accelerated throughput exactly when
  \<^verbatim>\<open>use_gpu\<close> is not negative (so also for \<^verbatim>\<open>use_gpu = 0\<close>); with a negative
  \<^verbatim>\<open>use_gpu\<close> the accelerated value is \<^verbatim>\<open>None\<close>. In the accelerated case the
  pipeline is loaded and evaluated a second time on the baseline backend.
\<close>

theorem checkpoint_speed_record:
  assumes "checkpoint a env i s = (Ok u, s')"
  shows "meta_speed (the_meta s') =
       Some \<lparr>speed_nwords = dev_words env i,
             speed_cpu = real (dev_words env i) / elapsed env i Baseline,
             speed_gpu = (if arg_use_gpu a < 0 then None
                          else Some (real (dev_words env i) / elapsed env i Accelerated))\<rparr> \<and>
     (\<exists>d. dir_at (arg_output_path a) (out_dir s')
             (slash (arg_output_path a) (epoch_model_name i)) = Some d \<and>
           meta_json d = Some (the_meta s')) \<and>
     events s' = events s @ [EvToDisk (slash (arg_output_path a) (epoch_model_name i))] @
       (if arg_use_gpu a < 0
        then [EvLoad (slash (arg_output_path a) (epoch_model_name i)) Baseline,
              EvDevDocs i Baseline, EvEvaluate i Baseline]
        else [EvLoad (slash (arg_output_path a) (epoch_model_name i)) Accelerated,
              EvDevDocs i Accelerated, EvEvaluate i Accelerated,
              EvLoad (slash (arg_output_path a) (epoch_model_name i)) Baseline,
              EvDevDocs i Baseline, EvEvaluate i Baseline]) @
       [EvWriteJson (slash (slash (arg_output_path a) (epoch_model_name i)) ''accuracy.json''),
        EvWriteJson (slash (slash (arg_output_path a) (epoch_model_name i)) ''meta.json'')]"
proof -
  let ?out = "arg_output_path a"
  let ?p = "slash ?out (epoch_model_name i)"
  from assms obtain s1 r s2 s3 s4 s5 s6 where
    disk: "to_disk env ?p (s\<lparr>averages_active := True, env_log := False\<rparr>) = (Ok (), s1)"
    and ev: "evaluate_speed a env i ?p s1 = (Ok r, s2)"
    and acc: "write_accuracy_json env ?out ?p (fst r) s2 = (Ok (), s3)"
    and upd: "update_meta a env i r s3 = (Ok (), s4)"
    and cl: "call env (EvWriteJson (slash ?p ''meta.json'')) s4 = (Ok (), s5)"
    and wm: "write_meta_json ?out ?p s5 = (Ok (), s6)"
    and fin: "s' = s6\<lparr>env_log := arg_verbose a, averages_active := False\<rparr>"
    unfolding checkpoint_def use_params_averages_def Let_def set_env_log_def
    by (auto simp: with_scope_Ok py_seq_Ok py_bind_Ok modify_Ok)
  note e = evaluate_speed_Ok[OF ev]
  from disk have ev1: "events s1 = events s @ [EvToDisk ?p]"
    by (auto simp: to_disk_Ok)
  from acc have ev3: "events s3 = events s2 @ [EvWriteJson (slash ?p ''accuracy.json'')]"
    and m3: "the_meta s3 = the_meta s2"
    by (auto simp: write_accuracy_json_Ok)
  from upd obtain sc nw cw gw where r: "r = (sc, nw, cw, gw)"
    and s4: "s4 = s3\<lparr>the_meta := (the_meta s3)
          \<lparr>meta_lang := Some (nlp_lang env),
           meta_pipeline := Some (pipe_names s3),
           meta_spacy_version := Some (''>='' @ about_version env),
           meta_accuracy := Some sc,
           meta_speed := Some \<lparr>speed_nwords = nw, speed_cpu = cw, speed_gpu = gw\<rparr>,
           meta_vectors := Some (vocab_vectors env),
           meta_name := (case meta_name (the_meta s3) of
                           None \<Rightarrow> Some (epoch_model_name i) | Some n \<Rightarrow> Some n),
           meta_version := (case meta_version (the_meta s3) of
                              None \<Rightarrow> Some (arg_version a) | Some v \<Rightarrow> Some v)\<rparr>\<rparr>"
    by (cases r) (auto simp: update_meta_def modify_Ok)
  from cl have s5: "s5 = s4\<lparr>events := events s4 @ [EvWriteJson (slash ?p ''meta.json'')]\<rparr>"
    by (simp add: call_Ok)
  from wm obtain d where s6: "s6 = s5\<lparr>out_dir := put_dir ?p (d\<lparr>meta_json := Some (the_meta s5)\<rparr>) (out_dir s5)\<rparr>"
    by (auto simp: write_meta_json_Ok)
  have speed: "meta_speed (the_meta s') =
      Some \<lparr>speed_nwords = nw, speed_cpu = cw, speed_gpu = gw\<rparr>"
    using fin s6 s5 s4 by simp
  have dir: "dir_at ?out (out_dir s') ?p = Some (d\<lparr>meta_json := Some (the_meta s5)\<rparr>)"
    using fin s6 by (simp add: dir_at_put_dir)
  have meta: "the_meta s' = the_meta s5" using fin s6 by simp
  have evs: "events s' = events s3 @ [EvWriteJson (slash ?p ''meta.json'')]"
    using fin s6 s5 s4 by simp
  from e r have vals: "nw = dev_words env i"
    "cw = real (dev_words env i) / elapsed env i Baseline"
    "gw = (if arg_use_gpu a < 0 then None
           else Some (real (dev_words env i) / elapsed env i Accelerated))"
    by simp_all
  from e have ev2: "events s2 = events s1 @
           (if arg_use_gpu a < 0
            then [EvLoad ?p Baseline, EvDevDocs i Baseline, EvEvaluate i Baseline]
            else [EvLoad ?p Accelerated, EvDevDocs i Accelerated, EvEvaluate i Accelerated,
                  EvLoad ?p Baseline, EvDevDocs i Baseline, EvEvaluate i Baseline])"
    by simp
  show ?thesis
    using speed vals dir meta evs ev3 ev2 ev1 by simp
qed

text \<open>The baseline backend (\<^verbatim>\<open>use_gpu = -1\<close>): 100 words in 2 seconds, no accelerated value.\<close>

theorem checkpoint_speed_record_witness:
  "arg_use_gpu ex_args = - 1 \<and>
   fst (checkpoint ex_args (ex_env no_raise) 0 ex_start) = Ok () \<and>
   meta_speed (the_meta (snd (checkpoint ex_args (ex_env no_raise) 0 ex_start))) =
     Some \<lparr>speed_nwords = 100, speed_cpu = 50, speed_gpu = None\<rparr> \<and>
   events (snd (checkpoint ex_args (ex_env no_raise) 0 ex_start)) =
     [EvToDisk [''out'', ''model0''], EvLoad [''out'', ''model0''] Baseline,
      EvDevDocs 0 Baseline, EvEvaluate 0 Baseline,
      EvWriteJson [''out'', ''model0'', ''accuracy.json''],
      EvWriteJson [''out'', ''model0'', ''meta.json'']]"
proof -
  have ok: "fst (checkpoint ex_args (ex_env no_raise) 0 ex_start) = Ok ()"
    by (simp add: train_defs prog_defs ex_defs Let_def)
  then have h: "checkpoint ex_args (ex_env no_raise) 0 ex_start =
      (Ok (), snd (checkpoint ex_args (ex_env no_raise) 0 ex_start))"
    by (simp add: prod_eq_iff)
  have g: "arg_use_gpu ex_args = - 1" by (simp add: ex_args_def)
  have e: "events ex_start = []" by (simp add: ex_start_def world_of_def)
  have d: "dev_words (ex_env no_raise) 0 = 100" "elapsed (ex_env no_raise) 0 Baseline = 2"
    "arg_output_path ex_args = [''out'']" "epoch_model_name 0 = ''model0''"
    by (simp_all add: ex_env_def ex_args_def epoch_model_name_def string_of_nat.simps)
  from checkpoint_speed_record[OF h] ok g e d show ?thesis
    by (simp add: slash_def)
qed

text \<open>
  Claim C3 as stated fails for \<^verbatim>\<open>use_gpu = 0\<close>: that is the accelerated device 0, and
  the speed record holds an accelerated throughput (100 words in half a second) next to
  the baseline one.
\<close>

theorem checkpoint_speed_use_gpu_0_counterexample:
  "arg_use_gpu (ex_args\<lparr>arg_use_gpu := 0\<rparr>) = 0 \<and>
   fst (checkpoint (ex_args\<lparr>arg_use_gpu := 0\<rparr>) (ex_env no_raise) 0 ex_start) = Ok () \<and>
   meta_speed (the_meta (snd (checkpoint (ex_args\<lparr>arg_use_gpu := 0\<rparr>) (ex_env no_raise) 0
       ex_start))) =
     Some \<lparr>speed_nwords = 100, speed_cpu = 50, speed_gpu = Some 200\<rparr>"
  by (simp add: train_defs prog_defs ex_defs Let_def)


section \<open>The set-up and the multitask objectives\<close>

subsection \<open>The calls of a computation\<close>


lemma appends_return: "appends P (py_return x)"
  by (simp add: appends_def py_return_def)

lemma appends_raise: "appends P (py_raise e)"
  by (simp add: appends_def py_raise_def)

lemma appends_bind:
  assumes "appends P m" and "\<And>x. appends P (k x)"
  shows "appends P (py_bind m k)"
  unfolding appends_def
proof
  fix s
  obtain r s1 where m: "m s = (r, s1)" by (cases "m s")
  from assms(1) obtain evs where "events (snd (m s)) = events s @ evs" "list_all P evs"
    unfolding appends_def by blast
  with m have e1: "events s1 = events s @ evs" and p1: "list_all P evs" by simp_all
  show "\<exists>evs. events (snd (py_bind m k s)) = events s @ evs \<and> list_all P evs"
  proof (cases r)
    case (Ok x)
    from assms(2)[of x] obtain evs2 where "events (snd (k x s1)) = events s1 @ evs2"
      "list_all P evs2" unfolding appends_def by blast
    with e1 p1 m Ok have "events (snd (py_bind m k s)) = events s @ (evs @ evs2) \<and>
      list_all P (evs @ evs2)" by (simp add: py_bind_def)
    then show ?thesis by blast
  next
    case (Raised err)
    with m e1 p1 have "events (snd (py_bind m k s)) = events s @ evs \<and> list_all P evs"
      by (simp add: py_bind_def)
    then show ?thesis by blast
  qed
qed

lemma appends_seq: "appends P m \<Longrightarrow> appends P k \<Longrightarrow> appends P (py_seq m k)"
  by (simp add: py_seq_def appends_bind)

lemma appends_for_each:
  "(\<And>x. x \<in> set xs \<Longrightarrow> appends P (body x)) \<Longrightarrow> appends P (for_each xs body)"
  by (induction xs) (simp_all add: appends_return appends_seq)

lemma appends_modify: "(\<And>s. events (g s) = events s) \<Longrightarrow> appends P (modify g)"
  by (simp add: appends_def modify_def)

lemma appends_call: "P ev \<Longrightarrow> appends P (call env ev)"
  by (simp add: appends_def call_def split: option.splits)

lemma appends_if:
  "(c \<Longrightarrow> appends P m) \<Longrightarrow> (\<not> c \<Longrightarrow> appends P k) \<Longrightarrow> appends P (if c then m else k)"
  by simp

lemma appends_if_state:
  assumes "appends P m"
  shows "appends P (\<lambda>s. if c s then m s else (Ok (), s))"
  unfolding appends_def
proof
  fix s
  from assms obtain evs where "events (snd (m s)) = events s @ evs" "list_all P evs"
    unfolding appends_def by blast
  then show "\<exists>evs. events (snd (if c s then m s else (Ok (), s))) = events s @ evs \<and>
      list_all P evs"
    by (cases "c s") auto
qed

lemmas appends_intros = appends_return appends_raise appends_bind appends_seq appends_for_each
  appends_modify appends_call appends_if

lemma appends_set_env_log: "appends P (set_env_log b)"
  unfolding set_env_log_def by (intro appends_intros) simp

lemma appends_check_paths: "appends (\<lambda>ev. \<not> training_work ev) (check_paths a env)"
  unfolding check_paths_def
  by (cases "arg_meta_path a"; cases "meta_file env") (auto intro!: appends_intros)

lemma appends_add_pipe: "appends (\<lambda>ev. \<not> training_work ev) (add_pipe env pipe)"
  unfolding add_pipe_def by (intro appends_intros) simp_all

lemma appends_setup_pipeline:
  "appends (\<lambda>ev. \<not> training_work ev) (setup_pipeline a env pipeline)"
  unfolding setup_pipeline_def
  by (intro appends_intros appends_if_state appends_add_pipe) simp_all

lemma appends_add_multitasks:
  "appends (\<lambda>ev. \<not> training_work ev) (add_multitasks env pipeline item)"
  unfolding add_multitasks_def
  by (cases item) (auto intro!: appends_intros)

lemma appends_multitask_objectives:
  "appends (\<lambda>ev. \<not> training_work ev) (multitask_objectives a env pipeline)"
  unfolding multitask_objectives_def
  by (intro appends_intros appends_add_multitasks)

subsection \<open>Registering the objectives\<close>


lemma py_seq_assoc: "py_seq (py_seq m k) l = py_seq m (py_seq k l)"
  by (auto simp: py_seq_def py_bind_def fun_eq_iff split: prod.splits outcome.splits)

lemma py_seq_raised_left: "fst (m s) = Raised e \<Longrightarrow> py_seq m k s = (Raised e, snd (m s))"
  by (cases "m s") (simp add: py_seq_def py_bind_def)

lemma py_seq_always_raises:
  assumes "\<And>s. \<exists>e. fst (k s) = Raised e"
  shows "\<exists>e. fst (py_seq m k s) = Raised e"
proof -
  obtain r s1 where m: "m s = (r, s1)" by (cases "m s")
  show ?thesis
  proof (cases r)
    case (Ok x)
    from assms[of s1] obtain e where "fst (k s1) = Raised e" by blast
    with m Ok show ?thesis by (simp add: py_seq_def py_bind_def split: prod.splits)
  next
    case (Raised err)
    with m show ?thesis by (simp add: py_seq_def py_bind_def)
  qed
qed

lemma py_seq_return: "py_seq (py_return ()) k = k"
  by (simp add: py_seq_def py_bind_def py_return_def fun_eq_iff)

lemma py_seq_call_ok:
  "raises env ev = None \<Longrightarrow> py_seq (call env ev) k s = k (s\<lparr>events := events s @ [ev]\<rparr>)"
  by (simp add: py_seq_def py_bind_def call_def)

lemma add_multitasks_absent:
  "multitasks \<noteq> [] \<Longrightarrow> pipe_name \<notin> set pipeline \<Longrightarrow>
   add_multitasks env pipeline (pipe_name, multitasks) s = (Raised (needs_in_pipeline pipe_name), s)"
  by (simp add: add_multitasks_def needs_in_pipeline_def py_seq_def py_bind_def py_raise_def)

lemma register_all:
  assumes "\<And>ob. raises env (EvAddObjective p ob) = None"
  shows "for_each objs (\<lambda>objective.
            py_seq (call env (EvAddObjective p objective))
              (modify (\<lambda>s. s\<lparr>objectives := objectives s @ [(p, objective)]\<rparr>))) s =
         (Ok (), s\<lparr>events := events s @ map (EvAddObjective p) objs,
                   objectives := objectives s @ map (Pair p) objs\<rparr>)"
proof -
  define body :: "string \<Rightarrow> ('a, unit) prog" where
    "body = (\<lambda>objective. py_seq (call env (EvAddObjective p objective))
              (modify (\<lambda>s. s\<lparr>objectives := objectives s @ [(p, objective)]\<rparr>)))"
  have step: "body ob s = (Ok (), s\<lparr>events := events s @ [EvAddObjective p ob],
      objectives := objectives s @ [(p, ob)]\<rparr>)" for ob s
    by (simp add: body_def py_seq_def py_bind_def call_def modify_def assms)
  have "for_each objs body s =
         (Ok (), s\<lparr>events := events s @ map (EvAddObjective p) objs,
                   objectives := objectives s @ map (Pair p) objs\<rparr>)"
  proof (induction objs arbitrary: s)
    case Nil
    then show ?case by (simp add: py_return_def)
  next
    case (Cons ob objs)
    have "for_each (ob # objs) body s =
        for_each objs body (s\<lparr>events := events s @ [EvAddObjective p ob],
          objectives := objectives s @ [(p, ob)]\<rparr>)"
      by (simp add: py_seq_def py_bind_def step)
    then show ?case by (simp add: Cons.IH)
  qed
  then show ?thesis by (simp add: body_def)
qed

lemma add_multitasks_present:
  assumes "\<And>p. raises env (EvGetPipe p) = None"
    and "\<And>p ob. raises env (EvAddObjective p ob) = None"
    and "multitasks \<noteq> [] \<longrightarrow> pipe_name \<in> set pipeline"
  shows "fst (add_multitasks env pipeline (pipe_name, multitasks) s) = Ok () \<and>
         objectives (snd (add_multitasks env pipeline (pipe_name, multitasks) s)) =
           objectives s @ configured_objectives pipe_name multitasks"
proof (cases "multitasks = []")
  case True
  then show ?thesis by (simp add: add_multitasks_def configured_objectives_def py_return_def)
next
  case False
  with assms(3) have "pipe_name \<in> set pipeline" by simp
  with False show ?thesis
    by (simp add: add_multitasks_def configured_objectives_def py_seq_return py_seq_call_ok
        assms(1) register_all[OF assms(2)])
qed

lemma multitask_objectives_unfold:
  "multitask_objectives a env pipeline =
     py_seq (add_multitasks env pipeline (''parser'', arg_parser_multitasks a))
       (py_seq (add_multitasks env pipeline (''ner'', arg_entity_multitasks a)) (py_return ()))"
  by (simp add: multitask_objectives_def)

lemma multitask_objectives_raises:
  assumes "multitask_misconfigured a"
  shows "\<exists>e. fst (multitask_objectives a env (the_pipeline a) s) = Raised e"
proof (cases "arg_parser_multitasks a \<noteq> [] \<and> ''parser'' \<notin> set (the_pipeline a)")
  case True
  then have "fst (add_multitasks env (the_pipeline a) (''parser'', arg_parser_multitasks a) s) =
      Raised (needs_in_pipeline ''parser'')"
    by (simp add: add_multitasks_absent)
  then show ?thesis
    unfolding multitask_objectives_unfold by (simp add: py_seq_raised_left)
next
  case False
  with assms have ner: "arg_entity_multitasks a \<noteq> []" "''ner'' \<notin> set (the_pipeline a)"
    by (auto simp: multitask_misconfigured_def)
  have "\<exists>e. fst (py_seq (add_multitasks env (the_pipeline a) (''ner'', arg_entity_multitasks a))
                 (py_return ()) s') = Raised e" for s' :: "'a world"
    using ner by (simp add: add_multitasks_absent py_seq_raised_left)
  then show ?thesis
    unfolding multitask_objectives_unfold by (rule py_seq_always_raises)
qed

lemma multitask_objectives_value_error:
  assumes "multitask_misconfigured a"
    and "\<And>p. raises env (EvGetPipe p) = None"
    and "\<And>p ob. raises env (EvAddObjective p ob) = None"
  shows "fst (multitask_objectives a env (the_pipeline a) s) = Raised (needs_in_pipeline ''parser'') \<or>
         fst (multitask_objectives a env (the_pipeline a) s) = Raised (needs_in_pipeline ''ner'')"
proof (cases "arg_parser_multitasks a \<noteq> [] \<and> ''parser'' \<notin> set (the_pipeline a)")
  case True
  then have "fst (add_multitasks env (the_pipeline a) (''parser'', arg_parser_multitasks a) s) =
      Raised (needs_in_pipeline ''parser'')"
    by (simp add: add_multitasks_absent)
  then show ?thesis
    unfolding multitask_objectives_unfold by (simp add: py_seq_raised_left)
next
  case False
  with assms(1) have ner: "arg_entity_multitasks a \<noteq> []" "''ner'' \<notin> set (the_pipeline a)"
    by (auto simp: multitask_misconfigured_def)
  from False have "arg_parser_multitasks a \<noteq> [] \<longrightarrow> ''parser'' \<in> set (the_pipeline a)" by blast
  from add_multitasks_present[OF assms(2) assms(3) this, of s]
  obtain s1 where p: "add_multitasks env (the_pipeline a) (''parser'', arg_parser_multitasks a) s =
      (Ok (), s1)"
    by (cases "add_multitasks env (the_pipeline a) (''parser'', arg_parser_multitasks a) s") auto
  have "fst (multitask_objectives a env (the_pipeline a) s) = Raised (needs_in_pipeline ''ner'')"
    unfolding multitask_objectives_unfold using p ner
    by (simp add: py_seq_def py_bind_def add_multitasks_absent)
  then show ?thesis by simp
qed

lemma multitask_objectives_registers:
  assumes "\<not> multitask_misconfigured a"
    and "\<And>p. raises env (EvGetPipe p) = None"
    and "\<And>p ob. raises env (EvAddObjective p ob) = None"
  shows "fst (multitask_objectives a env (the_pipeline a) s) = Ok () \<and>
         objectives (snd (multitask_objectives a env (the_pipeline a) s)) =
           objectives s @ configured_objectives ''parser'' (arg_parser_multitasks a) @
             configured_objectives ''ner'' (arg_entity_multitasks a)"
proof -
  from assms(1) have pp: "arg_parser_multitasks a \<noteq> [] \<longrightarrow> ''parser'' \<in> set (the_pipeline a)"
    and nn: "arg_entity_multitasks a \<noteq> [] \<longrightarrow> ''ner'' \<in> set (the_pipeline a)"
    by (auto simp: multitask_misconfigured_def)
  obtain r1 s1 where p: "add_multitasks env (the_pipeline a) (''parser'', arg_parser_multitasks a) s =
      (r1, s1)"
    by (cases "add_multitasks env (the_pipeline a) (''parser'', arg_parser_multitasks a) s")
  obtain r2 s2 where n: "add_multitasks env (the_pipeline a) (''ner'', arg_entity_multitasks a) s1 =
      (r2, s2)"
    by (cases "add_multitasks env (the_pipeline a) (''ner'', arg_entity_multitasks a) s1")
  from add_multitasks_present[OF assms(2) assms(3) pp, of s] p
  have p': "r1 = Ok ()" "objectives s1 = objectives s @
      configured_objectives ''parser'' (arg_parser_multitasks a)" by simp_all
  from add_multitasks_present[OF assms(2) assms(3) nn, of s1] n
  have n': "r2 = Ok ()" "objectives s2 = objectives s1 @
      configured_objectives ''ner'' (arg_entity_multitasks a)" by simp_all
  show ?thesis
    unfolding multitask_objectives_unfold using p n p' n'
    by (simp add: py_seq_def py_bind_def py_return_def)
qed


subsection \<open>The configuration error\<close>


lemma train_setup_split:
  "train_setup a env = py_seq (setup_before_corpus a env) (prepare_training a env)"
  by (simp add: train_setup_def setup_before_corpus_def py_seq_assoc)

lemma train_split:
  "train a env =
     py_seq (setup_before_corpus a env)
       (py_seq (prepare_training a env)
          (py_seq (try_finally (epoch_loop a env) (final_save a env)) (run_composer a)))"
  by (simp add: train_def train_setup_split py_seq_assoc)

lemma appends_setup_before_corpus:
  "appends (\<lambda>ev. \<not> training_work ev) (setup_before_corpus a env)"
  unfolding setup_before_corpus_def
  by (intro appends_seq appends_set_env_log appends_check_paths appends_setup_pipeline
      appends_multitask_objectives)

lemma setup_before_corpus_raises:
  assumes "multitask_misconfigured a"
  shows "\<exists>e. fst (setup_before_corpus a env s) = Raised e"
  unfolding setup_before_corpus_def
  by (intro py_seq_always_raises multitask_objectives_raises assms)

text \<open>
  Claim C7. When a multitask objective list is configured for the parser or for ner and
  that name is not in the pipeline list, \<open>train\<close> raises, and all calls it has made by
  then belong to the set-up: no corpus is counted, no optimizer created, no epoch run,
  nothing saved. Provided the pipeline's own calls do not fail, the error is the
  \<^verbatim>\<open>ValueError\<close> that names the missing component. When every configured component is
  in the pipeline list, each comma-separated objective name is registered on its
  component, the parser's first.
\<close>

theorem train_multitask_configuration:
  "(multitask_misconfigured a \<longrightarrow>
      (\<exists>e. fst (train a env s) = Raised e) \<and>
      (\<exists>evs. events (snd (train a env s)) = events s @ evs \<and>
             list_all (\<lambda>ev. \<not> training_work ev) evs)) \<and>
   (multitask_misconfigured a \<and> (\<forall>p. raises env (EvGetPipe p) = None) \<and>
      (\<forall>p ob. raises env (EvAddObjective p ob) = None) \<longrightarrow>
      fst (multitask_objectives a env (the_pipeline a) s) = Raised (needs_in_pipeline ''parser'') \<or>
      fst (multitask_objectives a env (the_pipeline a) s) = Raised (needs_in_pipeline ''ner'')) \<and>
   (\<not> multitask_misconfigured a \<and> (\<forall>p. raises env (EvGetPipe p) = None) \<and>
      (\<forall>p ob. raises env (EvAddObjective p ob) = None) \<longrightarrow>
      fst (multitask_objectives a env (the_pipeline a) s) = Ok () \<and>
      objectives (snd (multitask_objectives a env (the_pipeline a) s)) =
        objectives s @ configured_objectives ''parser'' (arg_parser_multitasks a) @
          configured_objectives ''ner'' (arg_entity_multitasks a))"
proof -
  have first: "(\<exists>e. fst (train a env s) = Raised e) \<and>
      (\<exists>evs. events (snd (train a env s)) = events s @ evs \<and>
             list_all (\<lambda>ev. \<not> training_work ev) evs)"
    if mis: "multitask_misconfigured a"
  proof -
    from setup_before_corpus_raises[OF mis, of env s]
    obtain e where e: "fst (setup_before_corpus a env s) = Raised e" by blast
    then have t: "train a env s = (Raised e, snd (setup_before_corpus a env s))"
      unfolding train_split by (rule py_seq_raised_left)
    from appends_setup_before_corpus[of a env]
    obtain evs where "events (snd (setup_before_corpus a env s)) = events s @ evs"
      "list_all (\<lambda>ev. \<not> training_work ev) evs"
      unfolding appends_def by blast
    with t show ?thesis by auto
  qed
  show ?thesis
    using first multitask_objectives_value_error[of a env s]
      multitask_objectives_registers[of a env s]
    by blast
qed

text \<open>
  Scenario B: \<^verbatim>\<open>--entity-multitasks dep\<close> with the pipeline \<^verbatim>\<open>tagger,parser\<close> raises
  \<^verbatim>\<open>ValueError\<close> after the pipeline has been set up and before anything else. With the
  pipeline \<^verbatim>\<open>parser, ner\<close> and the lists \<^verbatim>\<open>dep,tag\<close> and \<^verbatim>\<open>dep\<close>, three objectives
  are registered.
\<close>

theorem train_multitask_configuration_witness:
  "multitask_misconfigured ex_args_scenario_b \<and>
   fst (train ex_args_scenario_b (ex_env no_raise) ex_start) = Raised (needs_in_pipeline ''ner'') \<and>
   events (snd (train ex_args_scenario_b (ex_env no_raise) ex_start)) =
     [EvGetLangClass ''en'', EvAddPipe ''tagger'', EvAddPipe ''parser''] \<and>
   (\<exists>evs. events (snd (train ex_args_scenario_b (ex_env no_raise) ex_start)) =
       events ex_start @ evs \<and> list_all (\<lambda>ev. \<not> training_work ev) evs) \<and>
   \<not> multitask_misconfigured ex_args_multitasks \<and>
   fst (multitask_objectives ex_args_multitasks (ex_env no_raise)
         (the_pipeline ex_args_multitasks) ex_start) = Ok () \<and>
   objectives (snd (multitask_objectives ex_args_multitasks (ex_env no_raise)
         (the_pipeline ex_args_multitasks) ex_start)) =
     [(''parser'', ''dep''), (''parser'', ''tag''), (''ner'', ''dep'')]"
proof -
  have mis: "multitask_misconfigured ex_args_scenario_b"
    by (simp add: multitask_misconfigured_def ex_args_scenario_b_def ex_args_def the_pipeline_def
        strip_def is_space_def)
  have run: "fst (train ex_args_scenario_b (ex_env no_raise) ex_start) =
      Raised (needs_in_pipeline ''ner'')"
    by (simp add: ex_args_scenario_b_def needs_in_pipeline_def train_defs prog_defs ex_defs)
  have evs: "events (snd (train ex_args_scenario_b (ex_env no_raise) ex_start)) =
     [EvGetLangClass ''en'', EvAddPipe ''tagger'', EvAddPipe ''parser'']"
    by (simp add: ex_args_scenario_b_def train_defs prog_defs ex_defs)
  have ok: "\<not> multitask_misconfigured ex_args_multitasks"
    by (simp add: multitask_misconfigured_def ex_args_multitasks_def ex_args_def the_pipeline_def
        strip_def is_space_def)
  have quiet: "(\<forall>p. raises (ex_env no_raise) (EvGetPipe p) = None) \<and>
      (\<forall>p ob. raises (ex_env no_raise) (EvAddObjective p ob) = None)"
    by (simp add: ex_env_def no_raise_def)
  have objs: "objectives ex_start @
      configured_objectives ''parser'' (arg_parser_multitasks ex_args_multitasks) @
      configured_objectives ''ner'' (arg_entity_multitasks ex_args_multitasks) =
     [(''parser'', ''dep''), (''parser'', ''tag''), (''ner'', ''dep'')]"
    by (simp add: configured_objectives_def ex_args_multitasks_def ex_args_def ex_start_def
        world_of_def)
  from train_multitask_configuration[of ex_args_scenario_b "ex_env no_raise" ex_start]
    train_multitask_configuration[of ex_args_multitasks "ex_env no_raise" ex_start]
    mis run evs ok quiet objs
  show ?thesis by simp
qed

end
